theory Spec2Isabelle
  imports Main
begin

section \<open>Data model of \<^verbatim>\<open>app.py\<close>\<close>

subsection \<open>Tables\<close>

text \<open>
  A pandas table as \<^verbatim>\<open>app.py\<close> uses it: the column labels and the rows, each row
  with its index label and one cell per column. A cell is a string or the missing value
  (\<^verbatim>\<open>NaN\<close> / \<^verbatim>\<open>None\<close>). \<^verbatim>\<open>pd.DataFrame()\<close> is the table with no column and no row.
\<close>

datatype cell = Str string | NaN

record dataframe =
  columns :: "string list"
  rows :: "(int \<times> cell list) list"

definition DataFrame :: dataframe where
  "DataFrame = \<lparr>columns = [], rows = []\<rparr>"

text \<open>\<^verbatim>\<open>len(df)\<close> is the number of rows; \<^verbatim>\<open>df.empty\<close> holds when an axis has length 0.\<close>

definition df_len :: "dataframe \<Rightarrow> nat" where
  "df_len df = length (rows df)"

definition df_empty :: "dataframe \<Rightarrow> bool" where
  "df_empty df \<longleftrightarrow> columns df = [] \<or> rows df = []"

text \<open>
  \<^verbatim>\<open>df.head(n)\<close>: the first \<open>n\<close> rows; for a negative \<open>n\<close>, all rows but the
  last \<open>-n\<close>.
\<close>

definition df_head :: "int \<Rightarrow> dataframe \<Rightarrow> dataframe" where
  "df_head n df =
     (if 0 \<le> n then df\<lparr>rows := take (nat n) (rows df)\<rparr>
      else df\<lparr>rows := take (length (rows df) - nat (- n)) (rows df)\<rparr>)"

subsection \<open>Dependency graph and its rendering\<close>

text \<open>
  The graph handed to \<^verbatim>\<open>plot_dag_graphviz\<close>: \<^verbatim>\<open>G.nodes(data=True)\<close> and
  \<^verbatim>\<open>G.edges(data=True)\<close>, each attribute dictionary as an association list read with
  \<^const>\<open>map_of\<close>. Node names, type tags and labels are strings.
\<close>

type_synonym attrs = "(string \<times> string) list"

record graph =
  nodes :: "(string \<times> attrs) list"
  edges :: "(string \<times> string \<times> attrs) list"

text \<open>
  The \<^verbatim>\<open>Digraph\<close> object: its comment, its format and the statements of its body in the
  order the calls add them. \<^verbatim>\<open>dot.attr(kw, ...)\<close> is an attribute statement (\<open>kw\<close> absent
  for a graph attribute).
\<close>

datatype dot_stmt =
    AttrStmt "string option" attrs
  | NodeStmt string attrs
  | EdgeStmt string string attrs

record digraph =
  comment :: string
  format :: string
  body :: "dot_stmt list"

definition node_stmt :: "string \<times> attrs \<Rightarrow> dot_stmt" where
  "node_stmt nd =
     (let node = fst nd; data = snd nd;
          node_type = (case map_of data ''type'' of None \<Rightarrow> ''Original Field'' | Some t \<Rightarrow> t)
      in if node_type = ''Calculated Field'' then
           NodeStmt node [(''shape'', ''box''), (''style'', ''filled''), (''color'', ''lightblue'')]
         else if node_type = ''Original Field'' then
           NodeStmt node [(''shape'', ''ellipse''), (''style'', ''filled''), (''color'', ''#89CFF0'')]
         else if node_type = ''Data Source'' then
           NodeStmt node [(''shape'', ''rectangle''), (''style'', ''filled''), (''color'', ''orange'')]
         else
           NodeStmt node [(''shape'', ''ellipse''), (''style'', ''filled''), (''color'', ''grey'')])"

definition edge_stmt :: "string \<times> string \<times> attrs \<Rightarrow> dot_stmt" where
  "edge_stmt edge =
     (case edge of (source, target, attrs) \<Rightarrow>
        let label = (case map_of attrs ''label'' of None \<Rightarrow> '''' | Some l \<Rightarrow> l)
        in if label \<noteq> '''' then
             EdgeStmt source target
               [(''label'', label), (''fontsize'', ''8''), (''fontcolor'', ''gray'')]
           else EdgeStmt source target [])"

definition plot_dag_graphviz :: "graph \<Rightarrow> digraph" where
  "plot_dag_graphviz G =
     \<lparr>comment = ''Dependency DAG'', format = ''png'',
      body = [AttrStmt None [(''rankdir'', ''LR'')], AttrStmt (Some ''node'') [(''fontsize'', ''10'')]]
             @ map node_stmt (nodes G) @ map edge_stmt (edges G)\<rparr>"

subsection \<open>Exceptions, dictionary values, the report aggregate\<close>

text \<open>
  The exceptions that can reach \<^verbatim>\<open>main\<close>: the ones Python and pandas raise on the
  operations \<^verbatim>\<open>app.py\<close> performs, and \<open>Raised\<close> for whatever a collaborator outside
  this file (the parser, the graph builder, the report utilities) raises.
\<close>

datatype error =
    KeyError string
  | AttributeError string
  | ValueError string
  | MergeError string
  | Raised string

definition str_error :: "error \<Rightarrow> string" where
  "str_error e =
     (case e of KeyError k \<Rightarrow> [CHR 0x27] @ k @ [CHR 0x27]
      | AttributeError m \<Rightarrow> m | ValueError m \<Rightarrow> m | MergeError m \<Rightarrow> m | Raised m \<Rightarrow> m)"

text \<open>
  The report is a dictionary of two dictionaries whose values are strings (version
  information) or tables. \<^verbatim>\<open>d.get(k, default)\<close> is \<open>dict_get\<close>; reading \<^verbatim>\<open>.empty\<close> or
  \<^verbatim>\<open>.columns\<close> of a value that is not a table raises \<^verbatim>\<open>AttributeError\<close>.
\<close>

datatype pyval = PStr string | PFrame dataframe

type_synonym namespace = "string \<rightharpoonup> pyval"
type_synonym report = "string \<rightharpoonup> namespace"

definition dict_get :: "namespace \<Rightarrow> string \<Rightarrow> pyval \<Rightarrow> pyval" where
  "dict_get d k dflt = (case d k of None \<Rightarrow> dflt | Some v \<Rightarrow> v)"

definition frame_of :: "pyval \<Rightarrow> error + dataframe" where
  "frame_of v =
     (case v of PFrame df \<Rightarrow> Inr df
      | PStr s \<Rightarrow> Inl (AttributeError ''str object is not a DataFrame''))"

subsection \<open>The pandas operations of the caption merge\<close>

text \<open>
  Column labels need not be distinct. \<open>positions l cols\<close> are the places of label \<open>l\<close>;
  \<open>cell_at\<close> reads a row at a place (a row too short reads as missing).
\<close>

definition cell_at :: "cell list \<Rightarrow> nat \<Rightarrow> cell" where
  "cell_at cs i = (if i < length cs then cs ! i else NaN)"

definition positions :: "string \<Rightarrow> string list \<Rightarrow> nat list" where
  "positions l cols = filter (\<lambda>i. cols ! i = l) [0..<length cols]"

text \<open>
  \<^verbatim>\<open>df[[l1, l2]]\<close>: \<^verbatim>\<open>KeyError\<close> when a label is missing, otherwise the columns with
  these labels, in the order of the labels asked for.
\<close>

definition getitem_cols :: "dataframe \<Rightarrow> string list \<Rightarrow> error + dataframe" where
  "getitem_cols df labels =
     (case filter (\<lambda>l. l \<notin> set (columns df)) labels of
        m # _ \<Rightarrow> Inl (KeyError m)
      | [] \<Rightarrow>
          let ps = concat (map (\<lambda>l. positions l (columns df)) labels)
          in Inr \<lparr>columns = map (\<lambda>i. columns df ! i) ps,
                  rows = map (\<lambda>r. (fst r, map (cell_at (snd r)) ps)) (rows df)\<rparr>)"

text \<open>
  \<^verbatim>\<open>left.merge(right, on=key, how='left')\<close>. The key label must exist and be unique
  on both sides. The result has the columns of \<open>left\<close>, then those of \<open>right\<close> but the
  key; a label the two sides share gets the suffixes \<^verbatim>\<open>_x\<close> and \<^verbatim>\<open>_y\<close>, and pandas
  refuses the merge (\<^verbatim>\<open>MergeError\<close>) when a suffix produces a duplicate label: within
  one side (\<open>suffix_dups\<close>: a suffixed label repeats an earlier label of its side where
  the original label did not), or across the sides (\<open>suffix_collisions\<close>: a suffixed
  label equals a label that only the other side has). Every row of \<open>left\<close> is
  kept, in order: once per row of \<open>right\<close> with an equal key (missing keys match each
  other), or once with missing cells when no key is equal. The result is indexed
  \<open>0, 1, \<dots>\<close>.
\<close>

definition suffix_dups :: "string list \<Rightarrow> string list \<Rightarrow> string list" where
  "suffix_dups orig renamed =
     map (\<lambda>i. renamed ! i)
       (filter (\<lambda>i. renamed ! i \<in> set (take i renamed) \<and> orig ! i \<notin> set (take i orig))
          [0..<length renamed])"

definition suffix_collisions ::
  "string list \<Rightarrow> string list \<Rightarrow> string list \<Rightarrow> string list \<Rightarrow> string list" where
  "suffix_collisions lcols rcols llabels rlabels =
     filter (\<lambda>l. l \<in> set rcols \<and> l \<notin> set lcols) llabels @
     filter (\<lambda>l. l \<in> set lcols \<and> l \<notin> set rcols) rlabels"

definition merge_rows ::
  "nat \<Rightarrow> nat \<Rightarrow> nat \<Rightarrow> nat list \<Rightarrow> cell list list \<Rightarrow> cell list list \<Rightarrow> cell list list" where
  "merge_rows n lk rk rpos L R =
     concat (map (\<lambda>l.
        let ms = filter (\<lambda>r. cell_at r rk = cell_at l lk) R;
            l' = map (cell_at l) [0..<n]
        in if ms = [] then [l' @ replicate (length rpos) NaN]
           else map (\<lambda>r. l' @ map (cell_at r) rpos) ms) L)"

definition merge_left :: "dataframe \<Rightarrow> dataframe \<Rightarrow> string \<Rightarrow> error + dataframe" where
  "merge_left left right key =
     (if key \<notin> set (columns left) \<or> key \<notin> set (columns right) then Inl (KeyError key)
      else if length (positions key (columns left)) \<noteq> 1
              \<or> length (positions key (columns right)) \<noteq> 1 then
        Inl (ValueError (''The column label '' @ key @ '' is not unique''))
      else
        let lk = hd (positions key (columns left));
            rk = hd (positions key (columns right));
            rpos = filter (\<lambda>i. i \<noteq> rk) [0..<length (columns right)];
            lcols = columns left;
            rcols = map (\<lambda>i. columns right ! i) rpos;
            llabels = map (\<lambda>c. if c \<in> set rcols then c @ ''_x'' else c) lcols;
            rlabels = map (\<lambda>c. if c \<in> set lcols then c @ ''_y'' else c) rcols;
            merged = merge_rows (length lcols) lk rk rpos (map snd (rows left)) (map snd (rows right))
        in if suffix_dups lcols llabels @ suffix_dups rcols rlabels @
              suffix_collisions lcols rcols llabels rlabels \<noteq> [] then
             Inl (MergeError ''suffixes cause duplicate columns'')
           else Inr \<lparr>columns = llabels @ rlabels,
                     rows = zip (map int [0..<length merged]) merged\<rparr>)"

text \<open>\<^verbatim>\<open>df.rename(columns={old: new}, inplace=True)\<close>; a label that is absent is ignored.\<close>

definition df_rename :: "string \<Rightarrow> string \<Rightarrow> dataframe \<Rightarrow> dataframe" where
  "df_rename old new df = df\<lparr>columns := map (\<lambda>c. if c = old then new else c) (columns df)\<rparr>"

text \<open>
  Lines 174 to 190 of \<^verbatim>\<open>main\<close>, for one of the two field tables: \<open>None\<close> when the
  guard leaves the table alone, the merged and renamed table otherwise.
\<close>

definition merge_fields :: "dataframe \<Rightarrow> pyval \<Rightarrow> error + dataframe option" where
  "merge_fields df_data_sources fields_val =
     (case frame_of fields_val of
        Inl e \<Rightarrow> Inl e
      | Inr fields_df \<Rightarrow>
          if \<not> df_empty fields_df \<and> ''Data Source ID'' \<in> set (columns fields_df) then
            (case getitem_cols df_data_sources [''Data Source ID'', ''Caption''] of
               Inl e \<Rightarrow> Inl e
             | Inr sel \<Rightarrow>
                 (case merge_left fields_df sel ''Data Source ID'' of
                    Inl e \<Rightarrow> Inl e
                  | Inr merged \<Rightarrow> Inr (Some (df_rename ''Caption'' ''Data Source Caption'' merged))))
          else Inr None)"

text \<open>
  Lines 170 to 190: the caption merge. It runs outside every \<^verbatim>\<open>try\<close>, so an exception
  here ends the run. On success it returns the report with the merged tables stored back
  under \<^verbatim>\<open>report['metadata']\<close>.
\<close>

definition merge_step :: "report \<Rightarrow> error + report" where
  "merge_step report =
     (case report ''data'' of
        None \<Rightarrow> Inl (KeyError ''data'')
      | Some data \<Rightarrow>
     (case report ''metadata'' of
        None \<Rightarrow> Inl (KeyError ''metadata'')
      | Some metadata \<Rightarrow>
          let df_data_sources = dict_get data ''data_sources'' (PFrame DataFrame);
              calculated_fields_df = dict_get metadata ''calculated_fields'' (PFrame DataFrame);
              original_fields_df = dict_get metadata ''original_fields'' (PFrame DataFrame)
          in (case frame_of df_data_sources of
                Inl e \<Rightarrow> Inl e
              | Inr ds \<Rightarrow>
                  if \<not> df_empty ds then
                    (case merge_fields ds calculated_fields_df of
                       Inl e \<Rightarrow> Inl e
                     | Inr c \<Rightarrow>
                         let metadata1 = (case c of None \<Rightarrow> metadata
                                | Some m \<Rightarrow> metadata(''calculated_fields'' \<mapsto> PFrame m))
                         in (case merge_fields ds original_fields_df of
                               Inl e \<Rightarrow> Inl e
                             | Inr ob \<Rightarrow>
                                 let metadata2 = (case ob of None \<Rightarrow> metadata1
                                        | Some m \<Rightarrow> metadata1(''original_fields'' \<mapsto> PFrame m))
                                 in Inr (report(''metadata'' \<mapsto> metadata2))))
                  else Inr report)))"

subsection \<open>What the page shows\<close>

text \<open>
  Every call into the display surface is an event, in call order. Widget labels are given
  without their leading pictograph.
\<close>

datatype event =
    Title string
  | Write string
  | Markdown string
  | Header string
  | Error string
  | Json "(string \<times> pyval) list"
  | Dataframe dataframe
  | Button string string
  | Selectbox string "string list"
  | GraphvizChart digraph
  | SidebarHeader string
  | SidebarSuccess string
  | SidebarCheckbox string
  | SidebarSelectbox string "string list"
  | SidebarButton string
  | DownloadButton string string string string
  | SidebarDownloadButton string string string
  | SidebarError string

type_synonym session_state = "string \<rightharpoonup> bool"

text \<open>
  \<^verbatim>\<open>toggle_table_display\<close>. \<open>button\<close> answers, for a widget key, whether that button was
  clicked; the function returns what it displays and the session state it leaves.
\<close>

definition toggle_table_display ::
  "(string \<Rightarrow> bool) \<Rightarrow> string \<Rightarrow> dataframe \<Rightarrow> int \<Rightarrow> string \<Rightarrow> session_state
     \<Rightarrow> event list \<times> session_state" where
  "toggle_table_display button section_key dataframe display_limit section_label st =
     (let st1 = (if section_key \<notin> dom st then st(section_key \<mapsto> False) else st)
      in if st1 section_key = Some True then
           ([Dataframe dataframe,
             Button (''Show Less '' @ section_label) (''show_less_'' @ section_key)],
            if button (''show_less_'' @ section_key) then st1(section_key \<mapsto> False) else st1)
         else if int (df_len dataframe) > display_limit then
           ([Dataframe (df_head display_limit dataframe),
             Button (''Show More '' @ section_label) (''show_more_'' @ section_key)],
            if button (''show_more_'' @ section_key) then st1(section_key \<mapsto> True) else st1)
         else ([Dataframe dataframe], st1))"

subsection \<open>The collaborators and the user\<close>

text \<open>
  \<^verbatim>\<open>main\<close> calls code that is not part of \<^verbatim>\<open>app.py\<close>. Its behaviour in one run is a
  parameter: for each call of the parser whether it raises, the document text it leaves
  in \<^verbatim>\<open>twb_content\<close>, the report it returns, and what its extraction does to the files
  on disk; the graph builder, the report utilities and the clock; whether
  \<^verbatim>\<open>os.makedirs('logs')\<close> raises when it is called, and whether \<^verbatim>\<open>logzero.logfile\<close>
  raises (it does when \<^verbatim>\<open>logs\<close> is a regular file or cannot be written); and whether
  saving the upload works (\<open>OpenFailed\<close>: \<^verbatim>\<open>open\<close> raises and no file is made;
  \<open>WriteFailed\<close>: the file is made and \<^verbatim>\<open>write\<close> raises). The collaborators are taken to return
  their results without changing the tables and the report they are given.
\<close>

datatype save_outcome = Saved | OpenFailed | WriteFailed

record collaborators =
  makedirs_logs :: "error option"
  logfile :: "error option"
  save :: save_outcome
  decompress_twbx :: "error option"
  extraction :: "string set \<Rightarrow> string set"
  twb_content :: "string option"
  parse_twb :: "error option"
  get_report :: "error + report"
  generate_dag :: "pyval \<Rightarrow> pyval \<Rightarrow> pyval \<Rightarrow> string option \<Rightarrow> error + graph"
  generate_html_report :: "string list \<Rightarrow> report \<Rightarrow> error + string"
  pipe_png :: "digraph \<Rightarrow> error + string"
  image_to_base64 :: "string \<Rightarrow> error + string"
  convert_html_to_pdf :: "string \<Rightarrow> error + string option"
  now :: string

text \<open>
  The user's side of one run: the uploaded file (its bytes) if any, the state of each
  checkbox, which buttons were clicked (by key in the page, by label in the sidebar),
  and the choice made in each select box.
\<close>

record session =
  uploaded_file :: "string option"
  checkbox :: "string \<Rightarrow> bool"
  button :: "string \<Rightarrow> bool"
  sidebar_button :: "string \<Rightarrow> bool"
  selectbox :: "string \<Rightarrow> string list \<Rightarrow> string"
  sidebar_selectbox :: "string \<Rightarrow> string list \<Rightarrow> string"

subsection \<open>Small Python and pandas helpers\<close>

fun join :: "string \<Rightarrow> string list \<Rightarrow> string" where
  "join sep [] = []"
| "join sep [x] = x"
| "join sep (x # y # ys) = x @ sep @ join sep (y # ys)"

definition quoted :: "string \<Rightarrow> string" where
  "quoted s = [CHR 0x27] @ s @ [CHR 0x27]"

text \<open>\<^verbatim>\<open>s.replace(old, new)\<close>: every occurrence, left to right, without overlap.\<close>

function str_replace :: "string \<Rightarrow> string \<Rightarrow> string \<Rightarrow> string" where
  "str_replace old new s =
     (if old = [] then new @ concat (map (\<lambda>c. c # new) s)
      else if s = [] then []
      else if take (length old) s = old then new @ str_replace old new (drop (length old) s)
      else hd s # str_replace old new (tl s))"
  by pat_completeness auto
termination
  by (relation "measure (\<lambda>(old, new, s). length s)") (auto simp: neq_Nil_conv)

definition reset_index :: "dataframe \<Rightarrow> dataframe" where
  "reset_index df = df\<lparr>rows := zip (map int [0..<length (rows df)]) (map snd (rows df))\<rparr>"

definition index_plus_one :: "dataframe \<Rightarrow> dataframe" where
  "index_plus_one df = df\<lparr>rows := map (\<lambda>r. (fst r + 1, snd r)) (rows df)\<rparr>"

fun dropna :: "cell list \<Rightarrow> string list" where
  "dropna [] = []"
| "dropna (Str s # cs) = s # dropna cs"
| "dropna (NaN # cs) = dropna cs"

text \<open>\<^verbatim>\<open>unique()\<close> keeps the first occurrence of each value, in order of appearance.\<close>

definition unique :: "string list \<Rightarrow> string list" where
  "unique xs = rev (remdups (rev xs))"

text \<open>
  Lines 266 and 267: \<^verbatim>\<open>.get('Worksheet Name', [])\<close> on the worksheets table, then
  \<^verbatim>\<open>.dropna().unique().tolist()\<close>. Without the column the default \<^verbatim>\<open>[]\<close> is a list,
  which has no \<^verbatim>\<open>dropna\<close>; with the label on several columns \<^verbatim>\<open>get\<close> returns a table,
  which has no \<^verbatim>\<open>unique\<close>.
\<close>

definition worksheet_names :: "pyval \<Rightarrow> error + string list" where
  "worksheet_names v =
     (case frame_of v of
        Inl e \<Rightarrow> Inl e
      | Inr df \<Rightarrow>
          (case positions ''Worksheet Name'' (columns df) of
             [] \<Rightarrow> Inl (AttributeError ''list object has no attribute dropna'')
           | [p] \<Rightarrow> Inr (unique (dropna (map (\<lambda>r. cell_at (snd r) p) (rows df))))
           | _ \<Rightarrow> Inl (AttributeError ''DataFrame object has no attribute unique'')))"

subsection \<open>The sections of the page\<close>

definition report_sections :: "string list" where
  "report_sections =
     [''Version Information'', ''Calculated Fields'', ''Original Fields'', ''Worksheets'',
      ''Data Sources'', ''Dependency DAG'']"

text \<open>
  The four table sections of \<^verbatim>\<open>main\<close> (lines 205 to 259) are the same code up to the
  dictionary key, the session key, the label and the message. Each returns what it
  displayed, the session state, and the exception that interrupted it, if any.
  \<^verbatim>\<open>reset_index(drop=True)\<close> returns a new table, and the assignment to \<^verbatim>\<open>.index\<close>
  changes that new table, so the table held by the report stays as it is: a section
  returns no report.
\<close>

definition table_section ::
  "(string \<Rightarrow> bool) \<Rightarrow> namespace \<Rightarrow> string \<Rightarrow> string \<Rightarrow> string \<Rightarrow> string \<Rightarrow> session_state
     \<Rightarrow> event list \<times> session_state \<times> error option" where
  "table_section clicked ns key section_key section_label empty_msg st =
     (case frame_of (dict_get ns key (PFrame DataFrame)) of
        Inl e \<Rightarrow> ([], st, Some e)
      | Inr df \<Rightarrow>
          if \<not> df_empty df then
            (case toggle_table_display clicked section_key
                    (index_plus_one (reset_index df)) 10 section_label st of
               (ev, st') \<Rightarrow> (ev, st', None))
          else ([Write empty_msg], st, None))"

definition dag_section ::
  "collaborators \<Rightarrow> session \<Rightarrow> report \<Rightarrow> session_state
     \<Rightarrow> event list \<times> session_state \<times> error option" where
  "dag_section env ui report st =
     (case report ''metadata'' of
        None \<Rightarrow> ([], st, Some (KeyError ''metadata''))
      | Some metadata \<Rightarrow>
     (case report ''data'' of
        None \<Rightarrow> ([], st, Some (KeyError ''data''))
      | Some data \<Rightarrow>
          let calculated_fields_df = dict_get metadata ''calculated_fields'' (PFrame DataFrame);
              original_fields_df = dict_get metadata ''original_fields'' (PFrame DataFrame);
              data_sources_df = dict_get data ''data_sources'' (PFrame DataFrame);
              insufficient = ([Write ''Insufficient data to generate Dependency DAG.''], st, None)
          in (case frame_of calculated_fields_df of
                Inl e \<Rightarrow> ([], st, Some e)
              | Inr c \<Rightarrow>
                  if df_empty c then insufficient
                  else
                    (case frame_of original_fields_df of
                       Inl e \<Rightarrow> ([], st, Some e)
                     | Inr orig \<Rightarrow>
                         if df_empty orig then insufficient
                         else
                           (case worksheet_names
                                   (dict_get metadata ''worksheets'' (PFrame DataFrame)) of
                              Inl e \<Rightarrow> ([], st, Some e)
                            | Inr worksheets \<Rightarrow>
                                let opts = ''All'' # worksheets;
                                    selected_worksheet =
                                      selectbox ui ''Select Worksheet for DAG:'' opts
                                in (case generate_dag env calculated_fields_df original_fields_df
                                           data_sources_df (Some selected_worksheet) of
                                      Inl e \<Rightarrow>
                                        ([Selectbox ''Select Worksheet for DAG:'' opts], st, Some e)
                                    | Inr G \<Rightarrow>
                                        ([Selectbox ''Select Worksheet for DAG:'' opts,
                                          GraphvizChart (plot_dag_graphviz G)], st, None)))))))"

definition section_body ::
  "collaborators \<Rightarrow> session \<Rightarrow> report \<Rightarrow> string \<Rightarrow> session_state
     \<Rightarrow> event list \<times> session_state \<times> error option" where
  "section_body env ui report section st =
     (if section = ''Version Information'' then
        (case report ''metadata'' of
           None \<Rightarrow> ([], st, Some (KeyError ''metadata''))
         | Some metadata \<Rightarrow>
             ([Json [(''Version'', dict_get metadata ''version'' (PStr ''Unknown'')),
                     (''Source Platform'', dict_get metadata ''source_platform'' (PStr ''Unknown'')),
                     (''Source Build'', dict_get metadata ''source_build'' (PStr ''Unknown''))]],
              st, None))
      else if section = ''Calculated Fields'' then
        (case report ''metadata'' of
           None \<Rightarrow> ([], st, Some (KeyError ''metadata''))
         | Some metadata \<Rightarrow>
             table_section (button ui) metadata ''calculated_fields'' ''show_calculated_fields''
               ''Calculated Fields'' ''No calculated fields found.'' st)
      else if section = ''Original Fields'' then
        (case report ''metadata'' of
           None \<Rightarrow> ([], st, Some (KeyError ''metadata''))
         | Some metadata \<Rightarrow>
             table_section (button ui) metadata ''original_fields'' ''show_original_fields''
               ''Original Fields'' ''No original fields found.'' st)
      else if section = ''Worksheets'' then
        (case report ''metadata'' of
           None \<Rightarrow> ([], st, Some (KeyError ''metadata''))
         | Some metadata \<Rightarrow>
             table_section (button ui) metadata ''worksheets'' ''show_worksheets''
               ''Worksheets'' ''No worksheets found.'' st)
      else if section = ''Data Sources'' then
        (case report ''data'' of
           None \<Rightarrow> ([], st, Some (KeyError ''data''))
         | Some data \<Rightarrow>
             table_section (button ui) data ''data_sources'' ''show_data_sources''
               ''Data Sources'' ''No data sources found.'' st)
      else if section = ''Dependency DAG'' then dag_section env ui report st
      else ([], st, None))"

text \<open>
  One turn of the loop of line 193 for a selected section: the header, the body, and the
  error message of line 278 when the body raised.
\<close>

definition display_section ::
  "collaborators \<Rightarrow> session \<Rightarrow> report \<Rightarrow> string \<Rightarrow> session_state
     \<Rightarrow> event list \<times> session_state" where
  "display_section env ui report section st =
     (case section_body env ui report section st of
        (ev, st', None) \<Rightarrow> (Header section # ev, st')
      | (ev, st', Some e) \<Rightarrow>
          (Header section # ev @
             [Error (''An error occurred while displaying the '' @ quoted section @ '' section.'')],
           st'))"

fun display_sections ::
  "collaborators \<Rightarrow> session \<Rightarrow> report \<Rightarrow> string list \<Rightarrow> string list \<Rightarrow> session_state
     \<Rightarrow> event list \<times> session_state" where
  "display_sections env ui report selected_sections [] st = ([], st)"
| "display_sections env ui report selected_sections (section # rest) st =
     (if section \<in> set selected_sections then
        (case display_section env ui report section st of
           (ev, st1) \<Rightarrow>
             (case display_sections env ui report selected_sections rest st1 of
                (evs, st2) \<Rightarrow> (ev @ evs, st2)))
      else display_sections env ui report selected_sections rest st)"

subsection \<open>Export and download\<close>

text \<open>
  Lines 292 to 301: the graph is built again from the tables of the report, without a
  worksheet, drawn, and put in place of the placeholder of the HTML report.
\<close>

definition embed_dag :: "collaborators \<Rightarrow> string list \<Rightarrow> report \<Rightarrow> string \<Rightarrow> error + string" where
  "embed_dag env selected_sections report html_report =
     (if ''Dependency DAG'' \<in> set selected_sections then
        (case report ''metadata'' of
           None \<Rightarrow> Inl (KeyError ''metadata'')
         | Some metadata \<Rightarrow>
        (case frame_of (dict_get metadata ''calculated_fields'' (PFrame DataFrame)) of
           Inl e \<Rightarrow> Inl e
         | Inr c \<Rightarrow>
             if \<not> df_empty c then
               (case metadata ''calculated_fields'' of
                  None \<Rightarrow> Inl (KeyError ''calculated_fields'')
                | Some calculated \<Rightarrow>
               (case metadata ''original_fields'' of
                  None \<Rightarrow> Inl (KeyError ''original_fields'')
                | Some original \<Rightarrow>
               (case report ''data'' of
                  None \<Rightarrow> Inl (KeyError ''data'')
                | Some data \<Rightarrow>
               (case data ''data_sources'' of
                  None \<Rightarrow> Inl (KeyError ''data_sources'')
                | Some data_sources \<Rightarrow>
               (case generate_dag env calculated original data_sources None of
                  Inl e \<Rightarrow> Inl e
                | Inr G \<Rightarrow>
               (case pipe_png env (plot_dag_graphviz G) of
                  Inl e \<Rightarrow> Inl e
                | Inr img_bytes \<Rightarrow>
               (case image_to_base64 env img_bytes of
                  Inl e \<Rightarrow> Inl e
                | Inr img_base64 \<Rightarrow>
                    Inr (str_replace
                           ''<p>See the Dependency DAG visualization within the app.</p>''
                           (''<h3>Dependency DAG</h3><img src='' @
                              quoted (''data:image/png;base64,'' @ img_base64) @ ''/>'')
                           html_report))))))))
             else Inr html_report))
      else Inr html_report)"

definition export_report ::
  "collaborators \<Rightarrow> session \<Rightarrow> string list \<Rightarrow> report \<Rightarrow> event list" where
  "export_report env ui selected_sections report =
     (let export_format = sidebar_selectbox ui ''Select export format:'' [''HTML'', ''PDF'']
      in [Markdown ''---'', SidebarHeader ''Export Report'',
          SidebarSelectbox ''Select export format:'' [''HTML'', ''PDF''],
          SidebarButton ''Generate and Download Report''] @
         (if sidebar_button ui ''Generate and Download Report'' then
            (case generate_html_report env selected_sections report of
               Inl e \<Rightarrow> [Error (''An error occurred during report generation: '' @ str_error e)]
             | Inr html \<Rightarrow>
                 (case embed_dag env selected_sections report html of
                    Inl e \<Rightarrow>
                      [Error (''An error occurred during report generation: '' @ str_error e)]
                  | Inr html_report \<Rightarrow>
                      if export_format = ''HTML'' then
                        [Markdown ''### Download Report'',
                         DownloadButton ''Download HTML Report'' html_report
                           (''tableau_report_'' @ now env @ ''.html'') ''text/html'']
                      else if export_format = ''PDF'' then
                        (case convert_html_to_pdf env html_report of
                           Inl e \<Rightarrow> [Error (''Failed to generate PDF: '' @ str_error e)]
                         | Inr None \<Rightarrow> [Error ''Failed to generate PDF report.'']
                         | Inr (Some pdf) \<Rightarrow>
                             if pdf \<noteq> [] then
                               [Markdown ''### Download Report'',
                                DownloadButton ''Download PDF Report'' pdf
                                  (''tableau_report_'' @ now env @ ''.pdf'') ''application/pdf'']
                             else [Error ''Failed to generate PDF report.''])
                      else []))
          else []))"

definition temp_twbx_path :: string where
  "temp_twbx_path = ''temp_uploaded.twbx''"

definition download_original :: "session \<Rightarrow> string set \<Rightarrow> event list" where
  "download_original ui files =
     [SidebarHeader ''Download Original File'', SidebarButton ''Download Uploaded `.twbx`''] @
     (if sidebar_button ui ''Download Uploaded `.twbx`'' then
        if temp_twbx_path \<in> files then
          [SidebarDownloadButton ''Download `.twbx` File'' temp_twbx_path
             ''application/octet-stream'']
        else [SidebarError ''Failed to download the original `.twbx` file.'']
      else [])"

subsection \<open>\<^verbatim>\<open>main\<close>\<close>

definition init_session_state :: "session_state \<Rightarrow> session_state" where
  "init_session_state st =
     fold (\<lambda>key s. if key \<notin> dom s then s(key \<mapsto> False) else s)
       [''show_original_fields'', ''show_calculated_fields'', ''show_worksheets'',
        ''show_data_sources''] st"

text \<open>
  Lines 89 to 95: the log directory and the log file. Files are a set of paths.
  \<^verbatim>\<open>os.makedirs\<close> is called only when no path \<^verbatim>\<open>logs\<close> exists; then
  \<^verbatim>\<open>logzero.logfile\<close> opens \<^verbatim>\<open>logs/app.log\<close>. Neither call is inside a \<^verbatim>\<open>try\<close>: the
  result is the files on disk and the exception that ends the run here, if one is
  raised. The rotation of the log file is left out.
\<close>

definition start_logging :: "collaborators \<Rightarrow> string set \<Rightarrow> string set \<times> error option" where
  "start_logging env files =
     (if ''logs'' \<notin> files then
        (case makedirs_logs env of
           Some e \<Rightarrow> (files, Some e)
         | None \<Rightarrow>
             (case logfile env of
                Some e \<Rightarrow> (insert ''logs'' files, Some e)
              | None \<Rightarrow> (insert ''logs/app.log'' (insert ''logs'' files), None)))
      else
        (case logfile env of
           Some e \<Rightarrow> (files, Some e)
         | None \<Rightarrow> (insert ''logs/app.log'' files, None)))"

text \<open>Lines 117 to 127: the upload is written to \<^verbatim>\<open>temp_uploaded.twbx\<close>.\<close>

definition save_upload :: "save_outcome \<Rightarrow> string set \<Rightarrow> string set" where
  "save_upload outcome files =
     (case outcome of Saved \<Rightarrow> insert temp_twbx_path files
      | OpenFailed \<Rightarrow> files
      | WriteFailed \<Rightarrow> insert temp_twbx_path files)"

text \<open>
  Lines 129 to 154: decompress, check the document text, parse, fetch the report. The
  result is what was displayed and the report, or \<open>None\<close> when \<^verbatim>\<open>main\<close> returns here.
\<close>

definition load_report :: "collaborators \<Rightarrow> event list \<times> report option" where
  "load_report env =
     (case decompress_twbx env of
        Some e \<Rightarrow> ([Error ''Failed to decompress the `.twbx` file.''], None)
      | None \<Rightarrow>
          if twb_content env \<noteq> None \<and> twb_content env \<noteq> Some [] then
            (case parse_twb env of
               Some e \<Rightarrow>
                 ([Write ''**Decompressed the `.twbx` file successfully.**'',
                   Error ''Failed to parse the `.twb` content.''], None)
             | None \<Rightarrow>
                 (case get_report env of
                    Inl e \<Rightarrow>
                      ([Write ''**Decompressed the `.twbx` file successfully.**'',
                        Write ''**Parsed the `.twb` content successfully.**'',
                        Error ''Failed to parse the `.twb` content.''], None)
                  | Inr report \<Rightarrow>
                      ([Write ''**Decompressed the `.twbx` file successfully.**'',
                        Write ''**Parsed the `.twb` content successfully.**''], Some report)))
          else
            ([Write ''**Decompressed the `.twbx` file successfully.**'',
              Error ''Failed to extract `.twb` content from the uploaded `.twbx` file.''],
             None))"

text \<open>
  What one run of \<^verbatim>\<open>main\<close> leaves: the events shown, the session state, the files on
  disk, the report aggregate as it stands at the end (when one was obtained and the run
  was not cut short), and the exception that ended the run, if one escaped.
\<close>

record outcome =
  shown :: "event list"
  state_after :: session_state
  files_after :: "string set"
  report_after :: "report option"
  uncaught :: "error option"

definition page_head :: "event list" where
  "page_head =
     [Title ''Tableau Workbook Parser and Report Generator'',
      Write (''Upload a Tableau Workbook (`.twbx` file) to parse its contents and generate ''
             @ ''comprehensive reports, including version information, calculated fields, ''
             @ ''original fields, worksheets, and data sources. Additionally, visualize ''
             @ ''dependencies between calculated fields and original columns using a ''
             @ ''Directed Acyclic Graph (DAG).''),
      SidebarHeader ''Upload and Settings'']"

text \<open>
  \<^verbatim>\<open>main\<close> from line 97 on, once the session state is initialised (\<open>st1\<close>) and the log
  is open (\<open>files1\<close> are the files on disk then).
\<close>

definition run_page :: "collaborators \<Rightarrow> session \<Rightarrow> session_state \<Rightarrow> string set \<Rightarrow> outcome" where
  "run_page env ui st1 files1 =
     (case uploaded_file ui of
           None \<Rightarrow>
             \<lparr>shown = page_head, state_after = st1, files_after = files1,
              report_after = None, uncaught = None\<rparr>
         | Some buffer \<Rightarrow>
             let files2 = save_upload (save env) files1
             in if save env \<noteq> Saved then
                  \<lparr>shown = page_head @ [Error ''Failed to save the uploaded file.''],
                   state_after = st1, files_after = files2,
                   report_after = None, uncaught = None\<rparr>
                else
                  let ev1 = page_head @
                        [SidebarSuccess ''File uploaded successfully.'',
                         Write ''**File uploaded and saved successfully.**''];
                      files3 = extraction env files2
                  in (case load_report env of
                        (ev2, None) \<Rightarrow>
                          \<lparr>shown = ev1 @ ev2, state_after = st1, files_after = files3,
                           report_after = None, uncaught = None\<rparr>
                      | (ev2, Some report) \<Rightarrow>
                          let selected_sections =
                                filter (\<lambda>section. checkbox ui (''Include '' @ section))
                                  report_sections;
                              ev3 = SidebarHeader ''Report Generation'' #
                                    map (\<lambda>section. SidebarCheckbox (''Include '' @ section))
                                      report_sections @
                                    [Write ''### Selected Report Sections'',
                                     Write (join '', '' selected_sections), Markdown ''---'']
                          in (case merge_step report of
                                Inl e \<Rightarrow>
                                  \<lparr>shown = ev1 @ ev2 @ ev3, state_after = st1,
                                   files_after = files3, report_after = None,
                                   uncaught = Some e\<rparr>
                              | Inr report' \<Rightarrow>
                                  (case display_sections env ui report' selected_sections
                                          report_sections st1 of
                                     (ev4, st2) \<Rightarrow>
                                       \<lparr>shown = ev1 @ ev2 @ ev3 @ ev4 @
                                                export_report env ui selected_sections report' @
                                                download_original ui files3,
                                        state_after = st2, files_after = files3,
                                        report_after = Some report', uncaught = None\<rparr>))))"

text \<open>
  \<^verbatim>\<open>main\<close>: lines 76 to 95, then the page. An exception of the log set-up ends the run
  before anything is shown.
\<close>

definition main :: "collaborators \<Rightarrow> session \<Rightarrow> session_state \<Rightarrow> string set \<Rightarrow> outcome" where
  "main env ui st0 files0 =
     (let st1 = init_session_state st0
      in case start_logging env files0 of
           (files1, Some e) \<Rightarrow>
             \<lparr>shown = [], state_after = st1, files_after = files1,
              report_after = None, uncaught = Some e\<rparr>
         | (files1, None) \<Rightarrow> run_page env ui st1 files1)"

subsection \<open>Reading what was displayed\<close>

fun frames_shown :: "event list \<Rightarrow> dataframe list" where
  "frames_shown [] = []"
| "frames_shown (Dataframe df # ev) = df # frames_shown ev"
| "frames_shown (_ # ev) = frames_shown ev"

fun buttons_shown :: "event list \<Rightarrow> string list" where
  "buttons_shown [] = []"
| "buttons_shown (Button label key # ev) = label # buttons_shown ev"
| "buttons_shown (_ # ev) = buttons_shown ev"

fun graphs_shown :: "event list \<Rightarrow> digraph list" where
  "graphs_shown [] = []"
| "graphs_shown (GraphvizChart d # ev) = d # graphs_shown ev"
| "graphs_shown (_ # ev) = graphs_shown ev"

text \<open>
  The events that only a report section produces, and the error messages shown.
\<close>

fun section_events :: "event list \<Rightarrow> event list" where
  "section_events [] = []"
| "section_events (Header s # ev) = Header s # section_events ev"
| "section_events (Json j # ev) = Json j # section_events ev"
| "section_events (Dataframe df # ev) = Dataframe df # section_events ev"
| "section_events (Button l k # ev) = Button l k # section_events ev"
| "section_events (Selectbox l opts # ev) = Selectbox l opts # section_events ev"
| "section_events (GraphvizChart d # ev) = GraphvizChart d # section_events ev"
| "section_events (_ # ev) = section_events ev"

fun errors_shown :: "event list \<Rightarrow> string list" where
  "errors_shown [] = []"
| "errors_shown (Error m # ev) = m # errors_shown ev"
| "errors_shown (_ # ev) = errors_shown ev"

subsection \<open>Sample values\<close>

definition three :: dataframe where
  "three = \<lparr>columns = [''Field''], rows = [(1, [Str ''a'']), (2, [Str ''b'']), (3, [Str ''c''])]\<rparr>"

definition sample_graph :: graph where
  "sample_graph =
     \<lparr>nodes = [(''ds'', [(''type'', ''Data Source'')]), (''Sales'', []),
               (''Ratio'', [(''type'', ''Calculated Field'')]), (''p'', [(''type'', ''Parameter'')])],
      edges = [(''ds'', ''Sales'', []), (''Sales'', ''Ratio'', [(''label'', ''ds'')]),
               (''p'', ''Ratio'', [(''label'', '''')])]\<rparr>"

subsection \<open>Reading a merged table\<close>

text \<open>The cell of a row under a column label (under the first column with that label).\<close>

definition label_cell :: "dataframe \<Rightarrow> string \<Rightarrow> int \<times> cell list \<Rightarrow> cell" where
  "label_cell df label r =
     (case positions label (columns df) of [] \<Rightarrow> NaN | p # _ \<Rightarrow> cell_at (snd r) p)"

text \<open>
  The rows of the caption merge when the key is at place \<open>lk\<close> of the field table and
  the key and the caption are at places \<open>pd\<close> and \<open>pc\<close> of the data-source table.
\<close>

definition merged_rows :: "dataframe \<Rightarrow> dataframe \<Rightarrow> nat \<Rightarrow> nat \<Rightarrow> nat \<Rightarrow> cell list list" where
  "merged_rows fdf ds lk pd pc =
     merge_rows (length (columns fdf)) lk 0 [Suc 0] (map snd (rows fdf))
       (map (\<lambda>r. [cell_at (snd r) pd, cell_at (snd r) pc]) (rows ds))"

text \<open>
  \<open>kept_row\<close>: row \<open>r\<close> of the merged table repeats row \<open>l\<close> of the field table under
  every column of the field table. \<open>caption_for\<close>: \<open>c\<close> is the caption of a data source
  whose ID is \<open>key\<close>, or missing when no data source has that ID.
\<close>

definition kept_row :: "dataframe \<Rightarrow> dataframe \<Rightarrow> int \<times> cell list \<Rightarrow> int \<times> cell list \<Rightarrow> bool" where
  "kept_row fdf m l r \<longleftrightarrow> list_all (\<lambda>c. label_cell m c r = label_cell fdf c l) (columns fdf)"

definition caption_for :: "dataframe \<Rightarrow> cell \<Rightarrow> cell \<Rightarrow> bool" where
  "caption_for ds key c \<longleftrightarrow>
     (if \<exists>d \<in> set (rows ds). label_cell ds ''Data Source ID'' d = key
      then \<exists>d \<in> set (rows ds). label_cell ds ''Data Source ID'' d = key
             \<and> c = label_cell ds ''Caption'' d
      else c = NaN)"

text \<open>
  A merged table with a non-empty owner reference: in every row the \<^verbatim>\<open>Data Source ID\<close> and the
  \<^verbatim>\<open>Data Source Caption\<close> are present and not the empty string.
\<close>

definition nonempty_cell :: "cell \<Rightarrow> bool" where
  "nonempty_cell c = (case c of Str s \<Rightarrow> s \<noteq> [] | NaN \<Rightarrow> False)"

definition owner_reference_nonempty :: "dataframe \<Rightarrow> bool" where
  "owner_reference_nonempty df =
     list_all (\<lambda>r. nonempty_cell (label_cell df ''Data Source ID'' r)
                  \<and> nonempty_cell (label_cell df ''Data Source Caption'' r)) (rows df)"

text \<open>The table stored under a key of \<^verbatim>\<open>report['metadata']\<close> after the caption merge.\<close>

definition merged_table :: "report \<Rightarrow> string \<Rightarrow> pyval option" where
  "merged_table report key =
     (case merge_step report of
        Inl e \<Rightarrow> None
      | Inr report' \<Rightarrow> (case report' ''metadata'' of None \<Rightarrow> None | Some metadata \<Rightarrow> metadata key))"

subsection \<open>A sample workbook and its runs\<close>

text \<open>
  A small workbook: one data source with a caption, a calculated field on it, a calculated
  field on the parameters pseudo data source, which the data-source table does not list,
  one original field and one worksheet.
\<close>

definition sample_sources :: dataframe where
  "sample_sources =
     \<lparr>columns = [''Data Source ID'', ''Caption''],
      rows = [(0, [Str ''federated.1'', Str ''Orders''])]\<rparr>"

definition sample_calculated :: dataframe where
  "sample_calculated =
     \<lparr>columns = [''Field Name'', ''Formula'', ''Data Source ID''],
      rows = [(0, [Str ''Profit Ratio'', Str ''SUM([Profit])/SUM([Sales])'', Str ''federated.1'']),
              (1, [Str ''Top N'', Str ''10'', Str ''Parameters''])]\<rparr>"

definition sample_original :: dataframe where
  "sample_original =
     \<lparr>columns = [''Field Name'', ''Data Source ID''],
      rows = [(0, [Str ''Sales'', Str ''federated.1''])]\<rparr>"

definition sample_worksheets :: dataframe where
  "sample_worksheets =
     \<lparr>columns = [''Worksheet Name''], rows = [(0, [Str ''Sheet 1''])]\<rparr>"

definition sample_report :: report where
  "sample_report =
     [''metadata'' \<mapsto>
        [''version'' \<mapsto> PStr ''18.1'', ''source_platform'' \<mapsto> PStr ''win'',
         ''source_build'' \<mapsto> PStr ''2023.1.0'',
         ''calculated_fields'' \<mapsto> PFrame sample_calculated,
         ''original_fields'' \<mapsto> PFrame sample_original,
         ''worksheets'' \<mapsto> PFrame sample_worksheets],
      ''data'' \<mapsto> [''data_sources'' \<mapsto> PFrame sample_sources]]"

definition sample_merged :: dataframe where
  "sample_merged =
     \<lparr>columns = [''Field Name'', ''Formula'', ''Data Source ID'', ''Data Source Caption''],
      rows = [(0, [Str ''Profit Ratio'', Str ''SUM([Profit])/SUM([Sales])'', Str ''federated.1'',
                   Str ''Orders'']),
              (1, [Str ''Top N'', Str ''10'', Str ''Parameters'', NaN])]\<rparr>"

definition sample_merged_original :: dataframe where
  "sample_merged_original =
     \<lparr>columns = [''Field Name'', ''Data Source ID'', ''Data Source Caption''],
      rows = [(0, [Str ''Sales'', Str ''federated.1'', Str ''Orders''])]\<rparr>"

definition sample_report_merged :: report where
  "sample_report_merged =
     [''metadata'' \<mapsto>
        [''version'' \<mapsto> PStr ''18.1'', ''source_platform'' \<mapsto> PStr ''win'',
         ''source_build'' \<mapsto> PStr ''2023.1.0'',
         ''calculated_fields'' \<mapsto> PFrame sample_merged,
         ''original_fields'' \<mapsto> PFrame sample_merged_original,
         ''worksheets'' \<mapsto> PFrame sample_worksheets],
      ''data'' \<mapsto> [''data_sources'' \<mapsto> PFrame sample_sources]]"

subsection \<open>Reading a report\<close>

text \<open>The table the caption merge computes for a key of \<^verbatim>\<open>report['metadata']\<close>, if it computes one.\<close>

definition merged_entry :: "report \<Rightarrow> string \<Rightarrow> pyval option" where
  "merged_entry report key =
     (case report ''data'' of
        None \<Rightarrow> None
      | Some data \<Rightarrow>
     (case report ''metadata'' of
        None \<Rightarrow> None
      | Some metadata \<Rightarrow>
     (case frame_of (dict_get data ''data_sources'' (PFrame DataFrame)) of
        Inl e \<Rightarrow> None
      | Inr ds \<Rightarrow>
     (case merge_fields ds (dict_get metadata key (PFrame DataFrame)) of
        Inr (Some m) \<Rightarrow> Some (PFrame m)
      | _ \<Rightarrow> None))))"

text \<open>
  The three tables of a report that the graph builder is given: the entries
  \<^verbatim>\<open>calculated_fields\<close>, \<^verbatim>\<open>original_fields\<close> and \<^verbatim>\<open>data_sources\<close>, an absent entry
  read as the empty table. \<open>same_graphs g env report\<close>: the builder \<open>g\<close> returns what
  the builder of \<open>env\<close> returns on these tables, for every worksheet argument.
\<close>

definition namespace_of :: "report \<Rightarrow> string \<Rightarrow> namespace" where
  "namespace_of report ns = (case report ns of None \<Rightarrow> Map.empty | Some d \<Rightarrow> d)"

definition same_graphs ::
  "(pyval \<Rightarrow> pyval \<Rightarrow> pyval \<Rightarrow> string option \<Rightarrow> error + graph) \<Rightarrow> collaborators \<Rightarrow> report \<Rightarrow> bool" where
  "same_graphs g env report \<longleftrightarrow>
     (\<forall>w. g (dict_get (namespace_of report ''metadata'') ''calculated_fields'' (PFrame DataFrame))
             (dict_get (namespace_of report ''metadata'') ''original_fields'' (PFrame DataFrame))
             (dict_get (namespace_of report ''data'') ''data_sources'' (PFrame DataFrame)) w
        = generate_dag env
             (dict_get (namespace_of report ''metadata'') ''calculated_fields'' (PFrame DataFrame))
             (dict_get (namespace_of report ''metadata'') ''original_fields'' (PFrame DataFrame))
             (dict_get (namespace_of report ''data'') ''data_sources'' (PFrame DataFrame)) w)"

text \<open>A run: the sample workbook parses, every section is ticked, nothing is clicked.\<close>

definition sample_env :: collaborators where
  "sample_env =
     \<lparr>makedirs_logs = None, logfile = None,
      save = Saved, decompress_twbx = None, extraction = (\<lambda>files. files),
      twb_content = Some ''<workbook/>'', parse_twb = None, get_report = Inr sample_report,
      generate_dag = (\<lambda>c orig d w. Inr sample_graph),
      generate_html_report = (\<lambda>sections r. Inr ''<html></html>''),
      pipe_png = (\<lambda>dot. Inr ''png''), image_to_base64 = (\<lambda>b. Inr ''cG5n''),
      convert_html_to_pdf = (\<lambda>html. Inr None), now = ''20240101_000000''\<rparr>"

definition sample_ui :: session where
  "sample_ui =
     \<lparr>uploaded_file = Some ''PK'', checkbox = (\<lambda>label. True), button = (\<lambda>key. False),
      sidebar_button = (\<lambda>label. False), selectbox = (\<lambda>label opts. ''All''),
      sidebar_selectbox = (\<lambda>label opts. ''HTML'')\<rparr>"

text \<open>
  The four table sections with the namespace and key of their table and their
  empty-state message. A table is empty when its entry is an empty table or is absent
  (\<^verbatim>\<open>main\<close> reads an absent entry as \<^verbatim>\<open>pd.DataFrame()\<close>).
\<close>

definition table_sections :: "(string \<times> string \<times> string \<times> string) list" where
  "table_sections =
     [(''Calculated Fields'', ''metadata'', ''calculated_fields'', ''No calculated fields found.''),
      (''Original Fields'', ''metadata'', ''original_fields'', ''No original fields found.''),
      (''Worksheets'', ''metadata'', ''worksheets'', ''No worksheets found.''),
      (''Data Sources'', ''data'', ''data_sources'', ''No data sources found.'')]"

definition table_is_empty :: "report \<Rightarrow> string \<Rightarrow> string \<Rightarrow> bool" where
  "table_is_empty report ns key =
     (case dict_get (namespace_of report ns) key (PFrame DataFrame) of
        PFrame df \<Rightarrow> df_empty df | PStr s \<Rightarrow> False)"

definition is_table :: "report \<Rightarrow> string \<Rightarrow> string \<Rightarrow> bool" where
  "is_table report ns key =
     (case dict_get (namespace_of report ns) key (PFrame DataFrame) of
        PFrame df \<Rightarrow> True | PStr s \<Rightarrow> False)"

text \<open>Two more runs: the archive cannot be opened; the workbook has no worksheet.\<close>

definition broken_env :: collaborators where
  "broken_env = sample_env\<lparr>decompress_twbx := Some (Raised ''File is not a zip file'')\<rparr>"

definition no_sheets_report :: report where
  "no_sheets_report =
     [''metadata'' \<mapsto>
        [''version'' \<mapsto> PStr ''18.1'', ''source_platform'' \<mapsto> PStr ''win'',
         ''source_build'' \<mapsto> PStr ''2023.1.0'',
         ''calculated_fields'' \<mapsto> PFrame sample_calculated,
         ''original_fields'' \<mapsto> PFrame sample_original,
         ''worksheets'' \<mapsto> PFrame \<lparr>columns = [''Worksheet Name''], rows = []\<rparr>],
      ''data'' \<mapsto> [''data_sources'' \<mapsto> PFrame sample_sources]]"

definition no_sheets_env :: collaborators where
  "no_sheets_env = sample_env\<lparr>get_report := Inr no_sheets_report\<rparr>"

text \<open>
  One more run: the data-source table has no \<^verbatim>\<open>Caption\<close> column, and the workbook has no
  worksheet.
\<close>

definition no_caption_sources :: dataframe where
  "no_caption_sources =
     \<lparr>columns = [''Data Source ID''], rows = [(0, [Str ''federated.1''])]\<rparr>"

definition no_caption_report :: report where
  "no_caption_report =
     [''metadata'' \<mapsto>
        [''version'' \<mapsto> PStr ''18.1'', ''source_platform'' \<mapsto> PStr ''win'',
         ''source_build'' \<mapsto> PStr ''2023.1.0'',
         ''calculated_fields'' \<mapsto> PFrame sample_calculated,
         ''original_fields'' \<mapsto> PFrame sample_original,
         ''worksheets'' \<mapsto> PFrame \<lparr>columns = [''Worksheet Name''], rows = []\<rparr>],
      ''data'' \<mapsto> [''data_sources'' \<mapsto> PFrame no_caption_sources]]"

definition no_caption_env :: collaborators where
  "no_caption_env = sample_env\<lparr>get_report := Inr no_caption_report\<rparr>"

text \<open>\<open>keeps f p\<close>: the change \<open>f\<close> to the files on disk never removes the path \<open>p\<close>.\<close>

definition keeps :: "(string set \<Rightarrow> string set) \<Rightarrow> string \<Rightarrow> bool" where
  "keeps f p \<longleftrightarrow> (\<forall>files. p \<in> files \<longrightarrow> p \<in> f files)"

text \<open>
  A report whose two field tables are not empty and whose worksheet table is
  \<^verbatim>\<open>pd.DataFrame()\<close>, the table \<^verbatim>\<open>main\<close> itself substitutes for a missing entry.
\<close>

definition no_sheet_column_report :: report where
  "no_sheet_column_report =
     [''metadata'' \<mapsto>
        [''version'' \<mapsto> PStr ''18.1'', ''source_platform'' \<mapsto> PStr ''win'',
         ''source_build'' \<mapsto> PStr ''2023.1.0'',
         ''calculated_fields'' \<mapsto> PFrame sample_merged,
         ''original_fields'' \<mapsto> PFrame sample_merged_original,
         ''worksheets'' \<mapsto> PFrame DataFrame],
      ''data'' \<mapsto> [''data_sources'' \<mapsto> PFrame sample_sources]]"

subsection \<open>The parser, from the specification\<close>

text \<open>
  Modelled from the spec: the module \<^verbatim>\<open>parser/tableau_parser.py\<close> (the class
  \<^verbatim>\<open>TableauWorkbookParser\<close> with \<^verbatim>\<open>parse_twb\<close> and \<^verbatim>\<open>get_report\<close>) is not among the
  sources. The specification describes it as follows. The document has a root with the
  attributes version, source platform and source build, each possibly missing, and
  elements for data sources, fields and worksheets (section 6); parsing yields the
  version information and four row-oriented tables (section 4.2); a missing
  version or platform attribute defaults to the sentinel \<^verbatim>\<open>Unknown\<close> (section 4.2);
  malformed markup fails with \<^verbatim>\<open>DocumentParseError\<close> and yields no table (section 4.2);
  the report has the namespace \<^verbatim>\<open>metadata\<close> with the version information and the
  tables \<^verbatim>\<open>calculated_fields\<close>, \<^verbatim>\<open>original_fields\<close> and \<^verbatim>\<open>worksheets\<close>, and the
  namespace \<^verbatim>\<open>data\<close> with the table \<^verbatim>\<open>data_sources\<close>, with the stable column names
  \<^verbatim>\<open>Data Source ID\<close>, \<^verbatim>\<open>Caption\<close> and \<^verbatim>\<open>Worksheet Name\<close> (section 6).

  The specification fixes no other column name, so the further columns of each table
  are a parameter (\<open>layout\<close>), and a record of the document carries the cells of the
  named columns and the list of its further cells. The keys \<^verbatim>\<open>version\<close>,
  \<^verbatim>\<open>source_platform\<close> and \<^verbatim>\<open>source_build\<close> are the ones \<^verbatim>\<open>main\<close> reads.
\<close>

record twb_document =
  version_attr :: "string option"
  source_platform_attr :: "string option"
  source_build_attr :: "string option"
  data_source_records :: "(cell \<times> cell \<times> cell list) list"
  original_field_records :: "(cell \<times> cell list) list"
  calculated_field_records :: "(cell \<times> cell list) list"
  worksheet_records :: "(cell \<times> cell list) list"

record layout =
  data_source_more :: "string list"
  original_more :: "string list"
  calculated_more :: "string list"
  worksheet_more :: "string list"

text \<open>
  Modelled from the spec: a missing version, source-platform or source-build attribute
  defaults to the sentinel \<^verbatim>\<open>Unknown\<close> (section 4.2); the parser itself is not among the
  sources.
\<close>

definition or_unknown :: "string option \<Rightarrow> string" where
  "or_unknown a = (case a of None \<Rightarrow> ''Unknown'' | Some v \<Rightarrow> v)"

text \<open>
  Modelled from the spec: a row-oriented table with stable column names (section 6),
  built from the records of one kind; the parser's own table construction is not among
  the sources.
\<close>

definition table_of :: "string list \<Rightarrow> cell list list \<Rightarrow> dataframe" where
  "table_of cols recs = \<lparr>columns = cols, rows = zip (map int [0..<length recs]) recs\<rparr>"

text \<open>
  Modelled from the spec: the report aggregate of section 6, which \<^verbatim>\<open>get_report\<close> of
  the missing parser returns.
\<close>

definition spec_get_report :: "layout \<Rightarrow> twb_document \<Rightarrow> report" where
  "spec_get_report lay doc =
     [''metadata'' \<mapsto>
        [''version'' \<mapsto> PStr (or_unknown (version_attr doc)),
         ''source_platform'' \<mapsto> PStr (or_unknown (source_platform_attr doc)),
         ''source_build'' \<mapsto> PStr (or_unknown (source_build_attr doc)),
         ''calculated_fields'' \<mapsto>
           PFrame (table_of (''Data Source ID'' # calculated_more lay)
                     (map (\<lambda>f. fst f # snd f) (calculated_field_records doc))),
         ''original_fields'' \<mapsto>
           PFrame (table_of (''Data Source ID'' # original_more lay)
                     (map (\<lambda>f. fst f # snd f) (original_field_records doc))),
         ''worksheets'' \<mapsto>
           PFrame (table_of (''Worksheet Name'' # worksheet_more lay)
                     (map (\<lambda>w. fst w # snd w) (worksheet_records doc)))],
      ''data'' \<mapsto>
        [''data_sources'' \<mapsto>
           PFrame (table_of (''Data Source ID'' # ''Caption'' # data_source_more lay)
                     (map (\<lambda>d. fst d # fst (snd d) # snd (snd d)) (data_source_records doc)))]]"

text \<open>
  Modelled from the spec: \<^verbatim>\<open>parse_twb\<close> and \<^verbatim>\<open>get_report\<close> of the missing parser, as
  collaborators of \<^verbatim>\<open>main\<close>. \<open>None\<close> is markup that cannot be parsed: it fails with
  \<^verbatim>\<open>DocumentParseError\<close> and yields no table (section 4.2).
\<close>

definition spec_parser :: "layout \<Rightarrow> twb_document option \<Rightarrow> collaborators \<Rightarrow> collaborators" where
  "spec_parser lay doc env =
     env\<lparr>parse_twb := (case doc of None \<Rightarrow> Some (Raised ''DocumentParseError'') | Some d \<Rightarrow> None),
         get_report := (case doc of None \<Rightarrow> Inl (Raised ''DocumentParseError'')
                        | Some d \<Rightarrow> Inr (spec_get_report lay d))\<rparr>"

text \<open>
  A layout the caption merge and the worksheet selection can work with: labels are
  distinct, and no further column of a field table is called \<^verbatim>\<open>Caption\<close>.
\<close>

definition layout_ok :: "layout \<Rightarrow> bool" where
  "layout_ok lay \<longleftrightarrow>
     distinct (''Data Source ID'' # ''Caption'' # data_source_more lay) \<and>
     distinct (''Data Source ID'' # calculated_more lay) \<and>
     ''Caption'' \<notin> set (calculated_more lay) \<and>
     distinct (''Data Source ID'' # original_more lay) \<and>
     ''Caption'' \<notin> set (original_more lay) \<and>
     ''Worksheet Name'' \<notin> set (worksheet_more lay)"

definition sample_document :: twb_document where
  "sample_document =
     \<lparr>version_attr = Some ''18.1'', source_platform_attr = None, source_build_attr = None,
      data_source_records = [(Str ''federated.1'', Str ''Orders'', [])],
      original_field_records = [(Str ''federated.1'', [Str ''Sales''])],
      calculated_field_records = [(Str ''Parameters'', [Str ''Top N'', Str ''10''])],
      worksheet_records = [(Str ''Sheet 1'', [])]\<rparr>"

definition sample_layout :: layout where
  "sample_layout =
     \<lparr>data_source_more = [], original_more = [''Field Name''],
      calculated_more = [''Field Name'', ''Formula''], worksheet_more = []\<rparr>"

section \<open>Verified properties\<close>

subsection \<open>The table toggle\<close>

lemma df_head_nonneg:
  "0 \<le> n \<Longrightarrow> df_head n df = df\<lparr>rows := take (nat n) (rows df)\<rparr>"
  by (simp add: df_head_def)

text \<open>
  C8. For every table and display limit, \<^verbatim>\<open>toggle_table_display\<close> displays the whole
  table when its length is at most the limit or the section's expanded flag is set, and
  otherwise exactly \<^verbatim>\<open>head(display_limit)\<close> of it, which for a limit that is a row
  count (not negative) is its first \<open>display_limit\<close> rows. The Show More button is
  there if and only if the table is longer than the limit and the section is collapsed;
  the Show Less button if and only if the section is expanded.
\<close>

theorem toggle_table_display_shows:
  "(let ev = fst (toggle_table_display clicked key df limit label st);
        expanded = (st key = Some True)
    in ((int (df_len df) \<le> limit \<or> expanded) \<longrightarrow> frames_shown ev = [df]) \<and>
       (\<not> (int (df_len df) \<le> limit \<or> expanded) \<longrightarrow>
          frames_shown ev = [df_head limit df] \<and>
          (0 \<le> limit \<longrightarrow> df_head limit df = df\<lparr>rows := take (nat limit) (rows df)\<rparr>)) \<and>
       (''Show More '' @ label \<in> set (buttons_shown ev)
          \<longleftrightarrow> limit < int (df_len df) \<and> \<not> expanded) \<and>
       (''Show Less '' @ label \<in> set (buttons_shown ev) \<longleftrightarrow> expanded))"
  by (auto simp: toggle_table_display_def Let_def df_head_nonneg dom_def)

theorem toggle_table_display_shows_witness:
  "\<not> (int (df_len three) \<le> 2 \<or> (Map.empty :: session_state) ''k'' = Some True) \<and>
   frames_shown (fst (toggle_table_display (\<lambda>k. False) ''k'' three 2 ''Fields'' Map.empty))
     = [\<lparr>columns = [''Field''], rows = [(1, [Str ''a'']), (2, [Str ''b''])]\<rparr>] \<and>
   ''Show More Fields'' \<in> set (buttons_shown
      (fst (toggle_table_display (\<lambda>k. False) ''k'' three 2 ''Fields'' Map.empty))) \<and>
   (int (df_len three) \<le> 3 \<or> (Map.empty :: session_state) ''k'' = Some True) \<and>
   frames_shown (fst (toggle_table_display (\<lambda>k. False) ''k'' three 3 ''Fields'' Map.empty))
     = [three] \<and>
   [''k'' \<mapsto> True] ''k'' = Some True \<and>
   ''Show Less Fields'' \<in> set (buttons_shown
      (fst (toggle_table_display (\<lambda>k. False) ''k'' three 2 ''Fields'' [''k'' \<mapsto> True])))"
  using toggle_table_display_shows
          [where clicked = "\<lambda>k. False" and key = "''k''" and df = three and limit = 2
             and label = "''Fields''" and st = Map.empty]
        toggle_table_display_shows
          [where clicked = "\<lambda>k. False" and key = "''k''" and df = three and limit = 3
             and label = "''Fields''" and st = Map.empty]
        toggle_table_display_shows
          [where clicked = "\<lambda>k. False" and key = "''k''" and df = three and limit = 2
             and label = "''Fields''" and st = "[''k'' \<mapsto> True]"]
  by (simp add: Let_def three_def df_len_def df_head_def)

subsection \<open>Rendering the graph\<close>

text \<open>
  C10. \<^verbatim>\<open>plot_dag_graphviz\<close> returns a drawing for every graph: after the two attribute
  statements, one node statement per node and one edge statement per edge. A node is
  styled by its \<^verbatim>\<open>type\<close> attribute; a node without that attribute is styled as an
  \<^verbatim>\<open>Original Field\<close>; a tag other than the three known ones gets the default style,
  which differs from the three. An edge statement carries a label attribute if and only
  if the edge has a \<^verbatim>\<open>label\<close> attribute that is not empty, and then it is that label.
\<close>

theorem plot_dag_graphviz_total:
  "body (plot_dag_graphviz G) =
     [AttrStmt None [(''rankdir'', ''LR'')], AttrStmt (Some ''node'') [(''fontsize'', ''10'')]]
     @ map node_stmt (nodes G) @ map edge_stmt (edges G) \<and>
   (\<forall>n data. \<exists>style. node_stmt (n, data) = NodeStmt n style) \<and>
   (\<forall>n data. map_of data ''type'' = None \<longrightarrow>
      node_stmt (n, data) = node_stmt (n, [(''type'', ''Original Field'')])) \<and>
   (\<forall>n data. map_of data ''type'' = Some ''Data Source'' \<longrightarrow> node_stmt (n, data) =
      NodeStmt n [(''shape'', ''rectangle''), (''style'', ''filled''), (''color'', ''orange'')]) \<and>
   (\<forall>n data. map_of data ''type'' = Some ''Original Field'' \<longrightarrow> node_stmt (n, data) =
      NodeStmt n [(''shape'', ''ellipse''), (''style'', ''filled''), (''color'', ''#89CFF0'')]) \<and>
   (\<forall>n data. map_of data ''type'' = Some ''Calculated Field'' \<longrightarrow> node_stmt (n, data) =
      NodeStmt n [(''shape'', ''box''), (''style'', ''filled''), (''color'', ''lightblue'')]) \<and>
   (\<forall>n data t. map_of data ''type'' = Some t \<and>
        t \<notin> {''Data Source'', ''Original Field'', ''Calculated Field''} \<longrightarrow>
      node_stmt (n, data) =
        NodeStmt n [(''shape'', ''ellipse''), (''style'', ''filled''), (''color'', ''grey'')] \<and>
      node_stmt (n, data) \<notin>
        {node_stmt (n, [(''type'', ''Data Source'')]),
         node_stmt (n, [(''type'', ''Original Field'')]),
         node_stmt (n, [(''type'', ''Calculated Field'')])}) \<and>
   (\<forall>s t a. \<exists>as. edge_stmt (s, t, a) = EdgeStmt s t as \<and>
      ((\<exists>l. (''label'', l) \<in> set as) \<longleftrightarrow> (\<exists>l. map_of a ''label'' = Some l \<and> l \<noteq> [])) \<and>
      (\<forall>l. (''label'', l) \<in> set as \<longrightarrow> map_of a ''label'' = Some l))"
proof (intro conjI allI impI)
  show "body (plot_dag_graphviz G) =
     [AttrStmt None [(''rankdir'', ''LR'')], AttrStmt (Some ''node'') [(''fontsize'', ''10'')]]
     @ map node_stmt (nodes G) @ map edge_stmt (edges G)"
    by (simp add: plot_dag_graphviz_def)
next
  fix n :: string and data :: attrs show "\<exists>style. node_stmt (n, data) = NodeStmt n style"
    by (simp add: node_stmt_def Let_def)
next
  fix n :: string and data :: attrs assume "map_of data ''type'' = None"
  then show "node_stmt (n, data) = node_stmt (n, [(''type'', ''Original Field'')])"
    by (simp add: node_stmt_def)
next
  fix n :: string and data :: attrs assume "map_of data ''type'' = Some ''Data Source''"
  then show "node_stmt (n, data) =
      NodeStmt n [(''shape'', ''rectangle''), (''style'', ''filled''), (''color'', ''orange'')]"
    by (simp add: node_stmt_def)
next
  fix n :: string and data :: attrs assume "map_of data ''type'' = Some ''Original Field''"
  then show "node_stmt (n, data) =
      NodeStmt n [(''shape'', ''ellipse''), (''style'', ''filled''), (''color'', ''#89CFF0'')]"
    by (simp add: node_stmt_def)
next
  fix n :: string and data :: attrs assume "map_of data ''type'' = Some ''Calculated Field''"
  then show "node_stmt (n, data) =
      NodeStmt n [(''shape'', ''box''), (''style'', ''filled''), (''color'', ''lightblue'')]"
    by (simp add: node_stmt_def)
next
  fix n :: string and data :: attrs and t :: string
  assume h: "map_of data ''type'' = Some t \<and>
        t \<notin> {''Data Source'', ''Original Field'', ''Calculated Field''}"
  then show "node_stmt (n, data) =
        NodeStmt n [(''shape'', ''ellipse''), (''style'', ''filled''), (''color'', ''grey'')]"
    by (simp add: node_stmt_def)
  then show "node_stmt (n, data) \<notin>
        {node_stmt (n, [(''type'', ''Data Source'')]),
         node_stmt (n, [(''type'', ''Original Field'')]),
         node_stmt (n, [(''type'', ''Calculated Field'')])}"
    by (simp add: node_stmt_def)
next
  fix s t :: string and a :: attrs
  show "\<exists>as. edge_stmt (s, t, a) = EdgeStmt s t as \<and>
      ((\<exists>l. (''label'', l) \<in> set as) \<longleftrightarrow> (\<exists>l. map_of a ''label'' = Some l \<and> l \<noteq> [])) \<and>
      (\<forall>l. (''label'', l) \<in> set as \<longrightarrow> map_of a ''label'' = Some l)"
    by (cases "map_of a ''label''") (auto simp: edge_stmt_def Let_def)
qed


theorem plot_dag_graphviz_total_witness:
  "map_of [] ''type'' = (None :: string option) \<and>
   map_of [(''type'', ''Parameter'')] ''type'' = Some ''Parameter'' \<and>
   ''Parameter'' \<notin> {''Data Source'', ''Original Field'', ''Calculated Field''} \<and>
   body (plot_dag_graphviz sample_graph) =
     [AttrStmt None [(''rankdir'', ''LR'')], AttrStmt (Some ''node'') [(''fontsize'', ''10'')],
      NodeStmt ''ds'' [(''shape'', ''rectangle''), (''style'', ''filled''), (''color'', ''orange'')],
      NodeStmt ''Sales'' [(''shape'', ''ellipse''), (''style'', ''filled''), (''color'', ''#89CFF0'')],
      NodeStmt ''Ratio'' [(''shape'', ''box''), (''style'', ''filled''), (''color'', ''lightblue'')],
      NodeStmt ''p'' [(''shape'', ''ellipse''), (''style'', ''filled''), (''color'', ''grey'')],
      EdgeStmt ''ds'' ''Sales'' [],
      EdgeStmt ''Sales'' ''Ratio'' [(''label'', ''ds''), (''fontsize'', ''8''), (''fontcolor'', ''gray'')],
      EdgeStmt ''p'' ''Ratio'' []]"
  using plot_dag_graphviz_total [of sample_graph]
  by (simp add: sample_graph_def node_stmt_def edge_stmt_def)

subsection \<open>The caption merge\<close>

lemma filter_eq_upt: "filter (\<lambda>i. i = p) [0..<n] = (if p < n then [p] else [])"
  by (induction n) auto

lemma positions_distinct:
  assumes "distinct cols" and "l \<in> set cols"
  shows "\<exists>p. positions l cols = [p] \<and> p < length cols \<and> cols ! p = l"
proof -
  from assms(2) obtain p where p: "p < length cols" "cols ! p = l"
    by (auto simp: in_set_conv_nth)
  have "filter (\<lambda>i. cols ! i = l) [0..<length cols] = filter (\<lambda>i. i = p) [0..<length cols]"
    using assms(1) p by (intro filter_cong) (auto simp: nth_eq_iff_index_eq)
  with p show ?thesis by (auto simp: positions_def filter_eq_upt)
qed

lemma positions_absent: "l \<notin> set cols \<Longrightarrow> positions l cols = []"
  by (auto simp: positions_def filter_empty_conv)

lemma upt_split: "[0..<n + m] = [0..<n] @ map (\<lambda>i. n + i) [0..<m]"
  by (induction m) auto

lemma positions_append:
  "positions l (xs @ ys) = positions l xs @ map (\<lambda>i. length xs + i) (positions l ys)"
proof -
  have "filter (\<lambda>i. (xs @ ys) ! i = l) [0..<length xs] = filter (\<lambda>i. xs ! i = l) [0..<length xs]"
    by (rule filter_cong) (auto simp: nth_append)
  moreover have "filter (\<lambda>i. (xs @ ys) ! i = l) (map (\<lambda>i. length xs + i) [0..<length ys])
      = map (\<lambda>i. length xs + i) (filter (\<lambda>i. ys ! i = l) [0..<length ys])"
    by (simp add: filter_map comp_def)
  ultimately show ?thesis
    by (simp add: positions_def upt_split)
qed

lemma suffix_dups_same: "suffix_dups xs xs = []"
  by (simp add: suffix_dups_def filter_empty_conv)

lemma merge_rows_mem:
  "x \<in> set (merge_rows n lk rk rpos L R) \<longleftrightarrow>
     (\<exists>l \<in> set L.
        ((\<forall>r \<in> set R. cell_at r rk \<noteq> cell_at l lk)
           \<and> x = map (cell_at l) [0..<n] @ replicate (length rpos) NaN) \<or>
        (\<exists>r \<in> set R. cell_at r rk = cell_at l lk
           \<and> x = map (cell_at l) [0..<n] @ map (cell_at r) rpos))"
proof -
  have one: "x \<in> set (if filter (\<lambda>r. cell_at r rk = cell_at l lk) R = []
                 then [map (cell_at l) [0..<n] @ replicate (length rpos) NaN]
                 else map (\<lambda>r. map (cell_at l) [0..<n] @ map (cell_at r) rpos)
                        (filter (\<lambda>r. cell_at r rk = cell_at l lk) R)) \<longleftrightarrow>
        ((\<forall>r \<in> set R. cell_at r rk \<noteq> cell_at l lk)
           \<and> x = map (cell_at l) [0..<n] @ replicate (length rpos) NaN) \<or>
        (\<exists>r \<in> set R. cell_at r rk = cell_at l lk
           \<and> x = map (cell_at l) [0..<n] @ map (cell_at r) rpos)" for l
  proof (cases "filter (\<lambda>r. cell_at r rk = cell_at l lk) R = []")
    case True
    then show ?thesis by (simp add: filter_empty_conv)
  next
    case False
    then show ?thesis by (auto simp: filter_empty_conv image_iff)
  qed
  show ?thesis
    unfolding merge_rows_def Let_def set_concat set_map
    using one by blast
qed

lemma positions_hd:
  assumes "positions l cols = p # ps"
  shows "p < length cols \<and> cols ! p = l \<and> l \<in> set cols"
proof -
  have "p \<in> set (positions l cols)" using assms by simp
  then show ?thesis by (auto simp: positions_def)
qed

lemma getitem_two:
  assumes "positions a (columns ds) = [pa]" and "positions b (columns ds) = [pb]"
  shows "getitem_cols ds [a, b] =
           Inr \<lparr>columns = [a, b],
                rows = map (\<lambda>r. (fst r, [cell_at (snd r) pa, cell_at (snd r) pb])) (rows ds)\<rparr>"
proof -
  have "a \<in> set (columns ds)" "b \<in> set (columns ds)"
    using assms positions_hd by blast+
  moreover have "columns ds ! pa = a" "columns ds ! pb = b"
    using assms positions_hd by blast+
  ultimately show ?thesis using assms by (simp add: getitem_cols_def)
qed

lemma cell_at_left: "p < n \<Longrightarrow> cell_at (map f [0..<n] @ t) p = f p"
  by (simp add: cell_at_def nth_append)

lemma cell_at_right: "cell_at (map f [0..<n] @ [c]) n = c"
  by (simp add: cell_at_def nth_append)

lemma merge_left_caption:
  assumes "positions key (columns left) = [lk]" and "cap \<notin> set (columns left)"
    and "key \<noteq> cap"
  shows "merge_left left \<lparr>columns = [key, cap], rows = R\<rparr> key =
           Inr \<lparr>columns = columns left @ [cap],
                rows = (let M = merge_rows (length (columns left)) lk 0 [Suc 0]
                                  (map snd (rows left)) (map snd R)
                        in zip (map int [0..<length M]) M)\<rparr>"
proof -
  have k: "key \<in> set (columns left)"
    using assms(1) positions_hd by blast
  have p: "positions key [key, cap] = [0]"
    using assms(3) by (simp add: positions_def upt_rec)
  have r: "filter (\<lambda>i. i \<noteq> 0) [0..<2] = [Suc 0]"
    by (simp add: upt_rec)
  have l: "map (\<lambda>c. if c = cap then c @ ''_x'' else c) (columns left) = columns left"
    using assms(2) by (intro map_idI) auto
  show ?thesis
    using assms k
    by (simp add: merge_left_def p r l Let_def suffix_dups_same suffix_dups_def
          suffix_collisions_def)
qed

lemma merge_fields_result:
  assumes "positions ''Data Source ID'' (columns fdf) = [lk]"
    and "positions ''Data Source ID'' (columns ds) = [pd]"
    and "positions ''Caption'' (columns ds) = [pc]"
    and "''Caption'' \<notin> set (columns fdf)" and "\<not> df_empty fdf"
  shows "merge_fields ds (PFrame fdf) =
           Inr (Some \<lparr>columns = columns fdf @ [''Data Source Caption''],
                      rows = zip (map int [0..<length (merged_rows fdf ds lk pd pc)])
                               (merged_rows fdf ds lk pd pc)\<rparr>)"
proof -
  have k: "''Data Source ID'' \<in> set (columns fdf)"
    using assms(1) positions_hd by blast
  have l: "map (\<lambda>c. if c = ''Caption'' then ''Data Source Caption'' else c) (columns fdf)
             = columns fdf"
    using assms(4) by (intro map_idI) auto
  show ?thesis
    using assms(5) k
    by (simp add: merge_fields_def frame_of_def getitem_two [OF assms(2,3)]
          merge_left_caption [OF assms(1,4)] df_rename_def l Let_def merged_rows_def comp_def)
qed

lemma merged_rows_mem:
  "x \<in> set (merged_rows fdf ds lk pd pc) \<longleftrightarrow>
     (\<exists>l \<in> set (rows fdf).
        ((\<forall>d \<in> set (rows ds). cell_at (snd d) pd \<noteq> cell_at (snd l) lk)
           \<and> x = map (cell_at (snd l)) [0..<length (columns fdf)] @ [NaN]) \<or>
        (\<exists>d \<in> set (rows ds). cell_at (snd d) pd = cell_at (snd l) lk
           \<and> x = map (cell_at (snd l)) [0..<length (columns fdf)] @ [cell_at (snd d) pc]))"
  by (simp add: merged_rows_def merge_rows_mem cell_at_def)

lemma in_indexed:
  assumes "x \<in> set M"
  shows "\<exists>i. (i, x) \<in> set (zip (map int [0..<length M]) M)"
proof -
  from assms obtain j where j: "j < length M" "M ! j = x"
    by (auto simp: in_set_conv_nth)
  then have "zip (map int [0..<length M]) M ! j = (int j, x)" by simp
  moreover have "j < length (zip (map int [0..<length M]) M)" using j by simp
  ultimately have "(int j, x) \<in> set (zip (map int [0..<length M]) M)"
    using nth_mem by metis
  then show ?thesis ..
qed

text \<open>
  C3, as amended. When the data-source table has the columns \<^verbatim>\<open>Data Source ID\<close> and
  \<^verbatim>\<open>Caption\<close> and a non-empty field table has the column \<^verbatim>\<open>Data Source ID\<close> and no
  column named \<^verbatim>\<open>Caption\<close> or \<^verbatim>\<open>Data Source Caption\<close> (labels distinct in both), the
  caption merge succeeds and adds the column \<^verbatim>\<open>Data Source Caption\<close>; every field row
  is kept with all its cells, its \<^verbatim>\<open>Data Source ID\<close> included; and the
  \<^verbatim>\<open>Data Source Caption\<close> of a merged row is the \<^verbatim>\<open>Caption\<close> of a data source with the
  same \<^verbatim>\<open>Data Source ID\<close> when there is one, and missing when there is none.
\<close>

theorem caption_merge_rows:
  assumes dl: "distinct (columns fdf)" and dd: "distinct (columns ds)"
    and ne: "\<not> df_empty fdf"
    and k: "''Data Source ID'' \<in> set (columns fdf)"
    and nc: "''Caption'' \<notin> set (columns fdf)"
    and ndc: "''Data Source Caption'' \<notin> set (columns fdf)"
    and dk: "''Data Source ID'' \<in> set (columns ds)"
    and dc: "''Caption'' \<in> set (columns ds)"
  shows "\<exists>m. merge_fields ds (PFrame fdf) = Inr (Some m) \<and>
           columns m = columns fdf @ [''Data Source Caption''] \<and>
           (\<forall>l \<in> set (rows fdf). \<exists>r \<in> set (rows m). kept_row fdf m l r) \<and>
           (\<forall>r \<in> set (rows m). \<exists>l \<in> set (rows fdf). kept_row fdf m l r \<and>
              caption_for ds (label_cell fdf ''Data Source ID'' l)
                (label_cell m ''Data Source Caption'' r))"
proof -
  obtain lk where lk: "positions ''Data Source ID'' (columns fdf) = [lk]"
    using positions_distinct [OF dl k] by blast
  obtain pd where pd: "positions ''Data Source ID'' (columns ds) = [pd]"
    using positions_distinct [OF dd dk] by blast
  obtain pc where pc: "positions ''Caption'' (columns ds) = [pc]"
    using positions_distinct [OF dd dc] by blast
  define M where "M = merged_rows fdf ds lk pd pc"
  define m where "m = \<lparr>columns = columns fdf @ [''Data Source Caption''],
                          rows = zip (map int [0..<length M]) M\<rparr>"
  define n where "n = length (columns fdf)"
  have res: "merge_fields ds (PFrame fdf) = Inr (Some m)"
    unfolding m_def M_def by (rule merge_fields_result [OF lk pd pc nc ne])
  have left: "label_cell m c (i, map (cell_at (snd l)) [0..<n] @ [v]) = label_cell fdf c l"
    if cin: "c \<in> set (columns fdf)" for c i l v
  proof -
    obtain p where p: "positions c (columns fdf) = [p]" "p < length (columns fdf)"
      using positions_distinct [OF dl cin] by blast
    have "c \<noteq> ''Data Source Caption''" using cin ndc by auto
    then have "positions c [''Data Source Caption''] = []"
      by (simp add: positions_def)
    then have "positions c (columns m) = [p]"
      by (simp add: m_def positions_append p)
    then show ?thesis using p by (simp add: label_cell_def cell_at_left n_def)
  qed
  have right: "label_cell m ''Data Source Caption'' (i, map (cell_at (snd l)) [0..<n] @ [v]) = v"
    for i and l :: "int \<times> cell list" and v
  proof -
    have "positions ''Data Source Caption'' [''Data Source Caption''] = [0]"
      by (simp add: positions_def)
    then have "positions ''Data Source Caption'' (columns m) = [n]"
      by (simp add: m_def positions_append positions_absent [OF ndc] n_def)
    then show ?thesis by (simp add: label_cell_def cell_at_right)
  qed
  have dsid: "label_cell fdf ''Data Source ID'' l = cell_at (snd l) lk" for l
    by (simp add: label_cell_def lk)
  have dkey: "label_cell ds ''Data Source ID'' d = cell_at (snd d) pd" for d
    by (simp add: label_cell_def pd)
  have dcap: "label_cell ds ''Caption'' d = cell_at (snd d) pc" for d
    by (simp add: label_cell_def pc)
  have kept: "kept_row fdf m l (i, map (cell_at (snd l)) [0..<n] @ [v])" for l i v
    by (simp add: kept_row_def list_all_iff left)
  have every: "\<exists>r \<in> set (rows m). kept_row fdf m l r" if l: "l \<in> set (rows fdf)" for l
  proof -
    have "\<exists>v. map (cell_at (snd l)) [0..<n] @ [v] \<in> set M"
      unfolding M_def merged_rows_mem n_def using l by blast
    then obtain v where "map (cell_at (snd l)) [0..<n] @ [v] \<in> set M" by blast
    then obtain i where "(i, map (cell_at (snd l)) [0..<n] @ [v]) \<in> set (rows m)"
      unfolding m_def using in_indexed by fastforce
    with kept show ?thesis by blast
  qed
  have origin: "\<exists>l \<in> set (rows fdf). kept_row fdf m l r \<and>
              caption_for ds (label_cell fdf ''Data Source ID'' l)
                (label_cell m ''Data Source Caption'' r)" if r: "r \<in> set (rows m)" for r
  proof -
    have "(fst r, snd r) \<in> set (zip (map int [0..<length M]) M)"
      using r by (simp add: m_def)
    then have "snd r \<in> set M"
      by (rule set_zip_rightD)
    then obtain l where l: "l \<in> set (rows fdf)" and
      c: "((\<forall>d \<in> set (rows ds). cell_at (snd d) pd \<noteq> cell_at (snd l) lk)
           \<and> snd r = map (cell_at (snd l)) [0..<n] @ [NaN]) \<or>
        (\<exists>d \<in> set (rows ds). cell_at (snd d) pd = cell_at (snd l) lk
           \<and> snd r = map (cell_at (snd l)) [0..<n] @ [cell_at (snd d) pc])"
      unfolding M_def merged_rows_mem n_def by blast
    from c show ?thesis
    proof
      assume a: "(\<forall>d \<in> set (rows ds). cell_at (snd d) pd \<noteq> cell_at (snd l) lk)
           \<and> snd r = map (cell_at (snd l)) [0..<n] @ [NaN]"
      then have r': "r = (fst r, map (cell_at (snd l)) [0..<n] @ [NaN])"
        by (cases r) simp
      have "kept_row fdf m l r" by (subst r') (rule kept)
      moreover have "label_cell m ''Data Source Caption'' r = NaN"
        by (subst r') (rule right)
      moreover have "caption_for ds (label_cell fdf ''Data Source ID'' l) NaN"
        using a by (simp add: caption_for_def dsid dkey)
      ultimately show ?thesis using l by metis
    next
      assume "\<exists>d \<in> set (rows ds). cell_at (snd d) pd = cell_at (snd l) lk
           \<and> snd r = map (cell_at (snd l)) [0..<n] @ [cell_at (snd d) pc]"
      then obtain d where d: "d \<in> set (rows ds)" "cell_at (snd d) pd = cell_at (snd l) lk"
        and sr: "snd r = map (cell_at (snd l)) [0..<n] @ [cell_at (snd d) pc]" by blast
      then have r': "r = (fst r, map (cell_at (snd l)) [0..<n] @ [cell_at (snd d) pc])"
        by (cases r) simp
      have "kept_row fdf m l r" by (subst r') (rule kept)
      moreover have "label_cell m ''Data Source Caption'' r = cell_at (snd d) pc"
        by (subst r') (rule right)
      moreover have "caption_for ds (label_cell fdf ''Data Source ID'' l) (cell_at (snd d) pc)"
        unfolding caption_for_def dsid dkey dcap using d by auto
      ultimately show ?thesis using l by metis
    qed
  qed
  have "columns m = columns fdf @ [''Data Source Caption'']" by (simp add: m_def)
  with res every origin show ?thesis by (intro exI [of _ m] conjI ballI)
qed

lemma merge_fields_sample:
  "merge_fields sample_sources (PFrame sample_calculated) = Inr (Some sample_merged)"
  by (simp add: merge_fields_def frame_of_def df_empty_def sample_calculated_def sample_sources_def
        getitem_cols_def positions_def merge_left_def Let_def suffix_dups_def
        suffix_collisions_def merge_rows_def
        cell_at_def df_rename_def sample_merged_def)

lemma merge_fields_sample_original:
  "merge_fields sample_sources (PFrame sample_original) = Inr (Some sample_merged_original)"
  by (simp add: merge_fields_def frame_of_def df_empty_def sample_original_def sample_sources_def
        getitem_cols_def positions_def merge_left_def Let_def suffix_dups_def
        suffix_collisions_def merge_rows_def
        cell_at_def df_rename_def sample_merged_original_def)

lemma sources_not_empty: "\<not> df_empty sample_sources"
  by (simp add: df_empty_def sample_sources_def)

lemma merge_step_sample: "merge_step sample_report = Inr sample_report_merged"
proof -
  have "merge_step sample_report =
          Inr (sample_report(''metadata'' \<mapsto>
             ((the (sample_report ''metadata''))(''calculated_fields'' \<mapsto> PFrame sample_merged))
               (''original_fields'' \<mapsto> PFrame sample_merged_original)))"
    by (simp add: merge_step_def sample_report_def dict_get_def frame_of_def sources_not_empty
          merge_fields_sample merge_fields_sample_original)
  also have "\<dots> = Inr sample_report_merged"
    by (auto simp: sample_report_def sample_report_merged_def fun_eq_iff)
  finally show ?thesis .
qed

text \<open>
  C3 fails as stated: the merge is a left join, so a field whose \<^verbatim>\<open>Data Source ID\<close>
  matches no data source is kept with a missing \<^verbatim>\<open>Data Source Caption\<close>.
\<close>

theorem caption_merge_unmatched_counterexample:
  "merged_table sample_report ''calculated_fields'' = Some (PFrame sample_merged) \<and>
   (1, [Str ''Top N'', Str ''10'', Str ''Parameters'', NaN]) \<in> set (rows sample_merged) \<and>
   label_cell sample_merged ''Data Source Caption''
     (1, [Str ''Top N'', Str ''10'', Str ''Parameters'', NaN]) = NaN \<and>
   \<not> owner_reference_nonempty sample_merged"
proof -
  have "merged_table sample_report ''calculated_fields'' = Some (PFrame sample_merged)"
    by (simp add: merged_table_def merge_step_sample sample_report_merged_def)
  moreover have "label_cell sample_merged ''Data Source Caption''
     (1, [Str ''Top N'', Str ''10'', Str ''Parameters'', NaN]) = NaN"
    by (simp add: label_cell_def sample_merged_def positions_def cell_at_def)
  moreover have "\<not> owner_reference_nonempty sample_merged"
    by (simp add: owner_reference_nonempty_def label_cell_def sample_merged_def positions_def
          cell_at_def nonempty_cell_def)
  ultimately show ?thesis by (simp add: sample_merged_def)
qed

theorem caption_merge_rows_witness:
  "distinct (columns sample_calculated) \<and> distinct (columns sample_sources) \<and>
   \<not> df_empty sample_calculated \<and>
   ''Data Source ID'' \<in> set (columns sample_calculated) \<and>
   ''Caption'' \<notin> set (columns sample_calculated) \<and>
   ''Data Source Caption'' \<notin> set (columns sample_calculated) \<and>
   ''Data Source ID'' \<in> set (columns sample_sources) \<and>
   ''Caption'' \<in> set (columns sample_sources) \<and>
   merge_fields sample_sources (PFrame sample_calculated) = Inr (Some sample_merged) \<and>
   (\<exists>l \<in> set (rows sample_calculated).
      kept_row sample_calculated sample_merged l
        (0, [Str ''Profit Ratio'', Str ''SUM([Profit])/SUM([Sales])'', Str ''federated.1'',
             Str ''Orders'']) \<and>
      caption_for sample_sources (label_cell sample_calculated ''Data Source ID'' l)
        (label_cell sample_merged ''Data Source Caption''
           (0, [Str ''Profit Ratio'', Str ''SUM([Profit])/SUM([Sales])'', Str ''federated.1'',
                Str ''Orders'']))) \<and>
   (\<exists>l \<in> set (rows sample_calculated).
      kept_row sample_calculated sample_merged l
        (1, [Str ''Top N'', Str ''10'', Str ''Parameters'', NaN]) \<and>
      caption_for sample_sources (label_cell sample_calculated ''Data Source ID'' l)
        (label_cell sample_merged ''Data Source Caption''
           (1, [Str ''Top N'', Str ''10'', Str ''Parameters'', NaN])))"
proof -
  have h: "distinct (columns sample_calculated)" "distinct (columns sample_sources)"
    "\<not> df_empty sample_calculated"
    "''Data Source ID'' \<in> set (columns sample_calculated)"
    "''Caption'' \<notin> set (columns sample_calculated)"
    "''Data Source Caption'' \<notin> set (columns sample_calculated)"
    "''Data Source ID'' \<in> set (columns sample_sources)"
    "''Caption'' \<in> set (columns sample_sources)"
    by (simp_all add: sample_calculated_def sample_sources_def df_empty_def)
  have rows: "rows sample_merged =
     [(0, [Str ''Profit Ratio'', Str ''SUM([Profit])/SUM([Sales])'', Str ''federated.1'',
           Str ''Orders'']),
      (1, [Str ''Top N'', Str ''10'', Str ''Parameters'', NaN])]"
    by (simp add: sample_merged_def)
  from caption_merge_rows [OF h] have
    "\<forall>r \<in> set (rows sample_merged). \<exists>l \<in> set (rows sample_calculated).
        kept_row sample_calculated sample_merged l r \<and>
        caption_for sample_sources (label_cell sample_calculated ''Data Source ID'' l)
          (label_cell sample_merged ''Data Source Caption'' r)"
    by (simp add: merge_fields_sample)
  then show ?thesis
    using h by (simp add: rows merge_fields_sample)
qed

subsection \<open>What \<^verbatim>\<open>main\<close> leaves\<close>

lemma main_logged:
  assumes "start_logging env files = (files1, None)"
  shows "main env ui st files = run_page env ui (init_session_state st) files1"
  using assms by (simp add: main_def)

lemma main_log_failed:
  assumes "start_logging env files = (files1, Some e)"
  shows "main env ui st files =
           \<lparr>shown = [], state_after = init_session_state st, files_after = files1,
            report_after = None, uncaught = Some e\<rparr>"
  using assms by (simp add: main_def)

lemma start_logging_opened:
  assumes "makedirs_logs env = None" and "logfile env = None"
  shows "start_logging env files = (insert ''logs/app.log'' (insert ''logs'' files), None)"
  using assms by (auto simp: start_logging_def insert_absorb)

lemma start_logging_cong: "start_logging (env\<lparr>generate_dag := g\<rparr>) files = start_logging env files"
  by (simp add: start_logging_def cong: option.case_cong if_cong)

lemma main_opened:
  assumes "makedirs_logs env = None" and "logfile env = None"
  shows "main env ui st files =
           run_page env ui (init_session_state st) (insert ''logs/app.log'' (insert ''logs'' files))"
  by (rule main_logged, rule start_logging_opened) (rule assms)+

lemma sample_logged:
  "main sample_env ui st files =
     run_page sample_env ui (init_session_state st) (insert ''logs/app.log'' (insert ''logs'' files))"
  by (rule main_opened) (simp_all add: sample_env_def)

lemma page_report_after:
  "report_after (run_page env ui st files) =
     (case uploaded_file ui of
        None \<Rightarrow> None
      | Some b \<Rightarrow>
          if save env \<noteq> Saved then None
          else (case snd (load_report env) of
                  None \<Rightarrow> None
                | Some r \<Rightarrow> (case merge_step r of Inl e \<Rightarrow> None | Inr r' \<Rightarrow> Some r')))"
  by (simp add: run_page_def Let_def split: option.splits sum.splits prod.splits)

lemma load_report_Some:
  "snd (load_report env) = Some r \<longleftrightarrow>
     decompress_twbx env = None \<and> twb_content env \<noteq> None \<and> twb_content env \<noteq> Some []
       \<and> parse_twb env = None \<and> get_report env = Inr r"
  by (auto simp: load_report_def split: option.splits sum.splits)

lemma merge_step_frame:
  assumes "merge_step r = Inr r'"
  shows "(\<forall>ns. ns \<noteq> ''metadata'' \<longrightarrow> r' ns = r ns) \<and>
         (\<exists>md md'. r ''metadata'' = Some md \<and> r' ''metadata'' = Some md' \<and>
            (\<forall>k. k \<noteq> ''calculated_fields'' \<and> k \<noteq> ''original_fields'' \<longrightarrow> md' k = md k) \<and>
            (\<forall>k. md' k = md k \<or> (md' k = merged_entry r k \<and> md' k \<noteq> None)))"
proof -
  from assms obtain data md where d: "r ''data'' = Some data" and m: "r ''metadata'' = Some md"
    by (auto simp: merge_step_def split: option.splits)
  from assms obtain ds where ds: "frame_of (dict_get data ''data_sources'' (PFrame DataFrame)) = Inr ds"
    using d m by (auto simp: merge_step_def Let_def split: sum.splits)
  show ?thesis
  proof (cases "df_empty ds")
    case True
    then have "r' = r" using assms d m ds by (simp add: merge_step_def Let_def)
    then show ?thesis using m by simp
  next
    case False
    from assms False d m ds obtain c ob where
      c: "merge_fields ds (dict_get md ''calculated_fields'' (PFrame DataFrame)) = Inr c" and
      ob: "merge_fields ds (dict_get md ''original_fields'' (PFrame DataFrame)) = Inr ob" and
      r': "r' = r(''metadata'' \<mapsto>
             (case ob of None \<Rightarrow> (case c of None \<Rightarrow> md | Some x \<Rightarrow> md(''calculated_fields'' \<mapsto> PFrame x))
              | Some y \<Rightarrow> (case c of None \<Rightarrow> md | Some x \<Rightarrow> md(''calculated_fields'' \<mapsto> PFrame x))
                           (''original_fields'' \<mapsto> PFrame y)))"
      by (auto simp: merge_step_def Let_def split: sum.splits)
    have ec: "merged_entry r ''calculated_fields'' = map_option PFrame c"
      using d m ds c by (simp add: merged_entry_def split: option.splits)
    have eo: "merged_entry r ''original_fields'' = map_option PFrame ob"
      using d m ds ob by (simp add: merged_entry_def split: option.splits)
    show ?thesis
      unfolding r' using m ec eo by (cases c; cases ob) auto
  qed
qed

subsection \<open>The graph builder sees only the tables of the report\<close>

lemma dag_section_cong:
  assumes "same_graphs g env r"
  shows "dag_section (env\<lparr>generate_dag := g\<rparr>) ui r st = dag_section env ui r st"
proof (cases "r ''metadata''")
  case None
  then show ?thesis by (simp add: dag_section_def)
next
  case (Some md)
  show ?thesis
  proof (cases "r ''data''")
    case None
    then show ?thesis using Some by (simp add: dag_section_def)
  next
    case (Some data)
    have "g (dict_get md ''calculated_fields'' (PFrame DataFrame))
            (dict_get md ''original_fields'' (PFrame DataFrame))
            (dict_get data ''data_sources'' (PFrame DataFrame)) w
        = generate_dag env (dict_get md ''calculated_fields'' (PFrame DataFrame))
            (dict_get md ''original_fields'' (PFrame DataFrame))
            (dict_get data ''data_sources'' (PFrame DataFrame)) w" for w
      using assms \<open>r ''metadata'' = Some md\<close> Some
      by (simp add: same_graphs_def namespace_of_def)
    then show ?thesis
      using \<open>r ''metadata'' = Some md\<close> Some
      by (simp add: dag_section_def Let_def split: sum.splits)
  qed
qed

lemma display_section_cong:
  assumes "same_graphs g env r"
  shows "display_section (env\<lparr>generate_dag := g\<rparr>) ui r s st = display_section env ui r s st"
  by (simp add: display_section_def section_body_def dag_section_cong [OF assms])

lemma display_sections_cong:
  assumes "same_graphs g env r"
  shows "display_sections (env\<lparr>generate_dag := g\<rparr>) ui r sel secs st
           = display_sections env ui r sel secs st"
  by (induction secs arbitrary: st) (simp_all add: display_section_cong [OF assms])

lemma embed_dag_cong:
  assumes "same_graphs g env r"
  shows "embed_dag (env\<lparr>generate_dag := g\<rparr>) sel r html = embed_dag env sel r html"
proof -
  have "g c orig d None = generate_dag env c orig d None"
    if "r ''metadata'' = Some md" "md ''calculated_fields'' = Some c"
       "md ''original_fields'' = Some orig" "r ''data'' = Some data"
       "data ''data_sources'' = Some d" for md c orig data d
    using assms that by (auto simp: same_graphs_def namespace_of_def dict_get_def dest: spec [of _ None])
  then show ?thesis
    by (simp add: embed_dag_def split: option.splits sum.splits)
qed

lemma export_report_cong:
  assumes "same_graphs g env r"
  shows "export_report (env\<lparr>generate_dag := g\<rparr>) ui sel r = export_report env ui sel r"
  by (simp add: export_report_def embed_dag_cong [OF assms] Let_def
        cong: sum.case_cong option.case_cong if_cong)

lemma load_report_cong: "load_report (env\<lparr>generate_dag := g\<rparr>) = load_report env"
  by (simp add: load_report_def cong: sum.case_cong option.case_cong if_cong)

lemma page_cong:
  assumes "\<And>r'. report_after (run_page env ui st files) = Some r' \<Longrightarrow> same_graphs g env r'"
  shows "run_page (env\<lparr>generate_dag := g\<rparr>) ui st files = run_page env ui st files"
proof (cases "report_after (run_page env ui st files)")
  case None
  then show ?thesis
    by (auto simp: run_page_def Let_def load_report_cong split: option.splits sum.splits prod.splits)
next
  case (Some r')
  then have sg: "same_graphs g env r'" by (rule assms)
  from Some obtain b r ev2 where u: "uploaded_file ui = Some b" and sv: "save env = Saved"
    and lr: "load_report env = (ev2, Some r)" and ms: "merge_step r = Inr r'"
    unfolding page_report_after
    by (auto split: option.splits sum.splits if_splits simp: prod_eq_iff)
  show ?thesis
    using u sv lr ms
    by (simp add: run_page_def Let_def load_report_cong display_sections_cong [OF sg]
          export_report_cong [OF sg] split: prod.splits)
qed

text \<open>
  C5, as amended. Whenever a run of \<^verbatim>\<open>main\<close> ends with a report aggregate, that
  aggregate is the parser's report after the caption merge and nothing else: the
  \<^verbatim>\<open>data\<close> namespace (the data-source table) is the parser's; in \<^verbatim>\<open>metadata\<close> the
  worksheet table and the version entries are the parser's; the entries
  \<^verbatim>\<open>calculated_fields\<close> and \<^verbatim>\<open>original_fields\<close> are either the parser's or were
  replaced, once, by the table the caption merge computed from it. The sections and the
  export do not change the aggregate, and the graph builder is only ever given the
  tables of this aggregate: a builder that agrees with the one used on these three
  tables gives the same run.
\<close>

theorem report_after_is_merged_report:
  assumes "report_after (main env ui st files) = Some r'"
  shows "\<exists>r. get_report env = Inr r \<and> merge_step r = Inr r' \<and>
           (\<forall>ns. ns \<noteq> ''metadata'' \<longrightarrow> r' ns = r ns) \<and>
           (\<exists>md md'. r ''metadata'' = Some md \<and> r' ''metadata'' = Some md' \<and>
              (\<forall>k. k \<noteq> ''calculated_fields'' \<and> k \<noteq> ''original_fields'' \<longrightarrow> md' k = md k) \<and>
              (\<forall>k. md' k = md k \<or> (md' k = merged_entry r k \<and> md' k \<noteq> None))) \<and>
           (\<forall>g. same_graphs g env r' \<longrightarrow>
              main (env\<lparr>generate_dag := g\<rparr>) ui st files = main env ui st files)"
proof -
  obtain files1 lg where sl: "start_logging env files = (files1, lg)"
    by (cases "start_logging env files")
  have "lg = None"
  proof (cases lg)
    case (Some e)
    then show ?thesis using assms main_log_failed [of env files files1 e ui st] sl by simp
  qed simp
  with sl have l: "start_logging env files = (files1, None)" by simp
  note m = main_logged [OF l, of ui st]
  from assms obtain r where lr: "snd (load_report env) = Some r" and ms: "merge_step r = Inr r'"
    unfolding m page_report_after by (auto split: option.splits sum.splits if_splits)
  from lr have gr: "get_report env = Inr r" by (simp add: load_report_Some)
  have cong: "main (env\<lparr>generate_dag := g\<rparr>) ui st files = main env ui st files"
    if sg: "same_graphs g env r'" for g
  proof -
    have "start_logging (env\<lparr>generate_dag := g\<rparr>) files = (files1, None)"
      using l by (simp add: start_logging_cong)
    then have "main (env\<lparr>generate_dag := g\<rparr>) ui st files =
                 run_page (env\<lparr>generate_dag := g\<rparr>) ui (init_session_state st) files1"
      by (rule main_logged)
    also have "\<dots> = run_page env ui (init_session_state st) files1"
      using assms sg unfolding m by (intro page_cong) simp
    finally show ?thesis by (simp add: m)
  qed
  show ?thesis
  proof (intro exI [of _ r] conjI)
    show "get_report env = Inr r" by (rule gr)
    show "merge_step r = Inr r'" by (rule ms)
    show "\<forall>ns. ns \<noteq> ''metadata'' \<longrightarrow> r' ns = r ns"
      using merge_step_frame [OF ms] by (rule conjunct1)
    show "\<exists>md md'. r ''metadata'' = Some md \<and> r' ''metadata'' = Some md' \<and>
              (\<forall>k. k \<noteq> ''calculated_fields'' \<and> k \<noteq> ''original_fields'' \<longrightarrow> md' k = md k) \<and>
              (\<forall>k. md' k = md k \<or> (md' k = merged_entry r k \<and> md' k \<noteq> None))"
      using merge_step_frame [OF ms] by (rule conjunct2)
    show "\<forall>g. same_graphs g env r' \<longrightarrow>
              main (env\<lparr>generate_dag := g\<rparr>) ui st files = main env ui st files"
      using cong by (intro allI impI)
  qed
qed

lemma sample_run_report:
  "report_after (main sample_env sample_ui Map.empty {}) = Some sample_report_merged"
  unfolding sample_logged page_report_after
  by (simp add: sample_env_def sample_ui_def load_report_def merge_step_sample)

text \<open>
  C5 fails as stated: in the sample run the caption merge stores a table with one more
  column under \<^verbatim>\<open>report['metadata']['calculated_fields']\<close>, in place of the parsed one.
\<close>

theorem report_table_overwritten_counterexample:
  "get_report sample_env = Inr sample_report \<and>
   namespace_of sample_report ''metadata'' ''calculated_fields'' = Some (PFrame sample_calculated) \<and>
   report_after (main sample_env sample_ui Map.empty {}) = Some sample_report_merged \<and>
   namespace_of sample_report_merged ''metadata'' ''calculated_fields'' = Some (PFrame sample_merged) \<and>
   columns sample_merged \<noteq> columns sample_calculated"
proof -
  have "get_report sample_env = Inr sample_report" by (simp add: sample_env_def)
  moreover have "namespace_of sample_report ''metadata'' ''calculated_fields''
      = Some (PFrame sample_calculated)"
    by (simp add: namespace_of_def sample_report_def)
  moreover have "namespace_of sample_report_merged ''metadata'' ''calculated_fields''
      = Some (PFrame sample_merged)"
    by (simp add: namespace_of_def sample_report_merged_def)
  moreover have "columns sample_merged \<noteq> columns sample_calculated"
    by (simp add: sample_merged_def sample_calculated_def)
  ultimately show ?thesis using sample_run_report by simp
qed

theorem report_after_is_merged_report_witness:
  "report_after (main sample_env sample_ui Map.empty {}) = Some sample_report_merged \<and>
   get_report sample_env = Inr sample_report \<and>
   merge_step sample_report = Inr sample_report_merged \<and>
   sample_report_merged ''data'' = sample_report ''data'' \<and>
   main (sample_env\<lparr>generate_dag :=
           \<lambda>c orig d w. if c = PFrame sample_merged then Inr sample_graph
                         else Inl (Raised ''not the merged table'')\<rparr>)
        sample_ui Map.empty {}
     = main sample_env sample_ui Map.empty {}"
proof -
  have sg: "same_graphs (\<lambda>c orig d w. if c = PFrame sample_merged then Inr sample_graph
                         else Inl (Raised ''not the merged table'')) sample_env sample_report_merged"
    by (simp add: same_graphs_def namespace_of_def sample_report_merged_def dict_get_def
          sample_env_def)
  have "\<forall>g. same_graphs g sample_env sample_report_merged \<longrightarrow>
              main (sample_env\<lparr>generate_dag := g\<rparr>) sample_ui Map.empty {}
                = main sample_env sample_ui Map.empty {}"
    using report_after_is_merged_report [OF sample_run_report] by (elim exE conjE)
  from this [rule_format, OF sg] have
    "main (sample_env\<lparr>generate_dag :=
           \<lambda>c orig d w. if c = PFrame sample_merged then Inr sample_graph
                         else Inl (Raised ''not the merged table'')\<rparr>)
        sample_ui Map.empty {}
     = main sample_env sample_ui Map.empty {}" .
  moreover have "get_report sample_env = Inr sample_report" by (simp add: sample_env_def)
  moreover have "sample_report_merged ''data'' = sample_report ''data''"
    by (simp add: sample_report_merged_def sample_report_def)
  ultimately show ?thesis
    using sample_run_report merge_step_sample by (intro conjI)
qed

subsection \<open>Abort and empty states\<close>

lemma section_events_append [simp]:
  "section_events (xs @ ys) = section_events xs @ section_events ys"
  by (induction xs rule: section_events.induct) auto

lemma errors_shown_append [simp]:
  "errors_shown (xs @ ys) = errors_shown xs @ errors_shown ys"
  by (induction xs rule: errors_shown.induct) auto

lemma page_head_quiet: "section_events page_head = [] \<and> errors_shown page_head = []"
  by (simp add: page_head_def)

lemma page_aborted:
  assumes "uploaded_file ui = Some b" and "save env = Saved" and "snd (load_report env) = None"
  shows "shown (run_page env ui st files) =
           page_head @ [SidebarSuccess ''File uploaded successfully.'',
                        Write ''**File uploaded and saved successfully.**''] @ fst (load_report env)"
    and "report_after (run_page env ui st files) = None"
    and "uncaught (run_page env ui st files) = None"
proof -
  obtain ev2 where l: "load_report env = (ev2, None)"
    using assms(3) by (cases "load_report env") simp
  show "shown (run_page env ui st files) =
           page_head @ [SidebarSuccess ''File uploaded successfully.'',
                        Write ''**File uploaded and saved successfully.**''] @ fst (load_report env)"
    using assms(1,2) l by (simp add: run_page_def Let_def)
  show "report_after (run_page env ui st files) = None"
    using assms(1,2) l by (simp add: run_page_def Let_def)
  show "uncaught (run_page env ui st files) = None"
    using assms(1,2) l by (simp add: run_page_def Let_def)
qed

lemma load_report_decompress:
  "decompress_twbx env \<noteq> None \<Longrightarrow>
     load_report env = ([Error ''Failed to decompress the `.twbx` file.''], None)"
  by (auto simp: load_report_def)

lemma load_report_no_content:
  "decompress_twbx env = None \<Longrightarrow> twb_content env = None \<or> twb_content env = Some [] \<Longrightarrow>
     load_report env =
       ([Write ''**Decompressed the `.twbx` file successfully.**'',
         Error ''Failed to extract `.twb` content from the uploaded `.twbx` file.''], None)"
  by (auto simp: load_report_def)

lemma load_report_parse:
  "decompress_twbx env = None \<Longrightarrow> twb_content env \<noteq> None \<Longrightarrow> twb_content env \<noteq> Some [] \<Longrightarrow>
   parse_twb env \<noteq> None \<or> (\<exists>e. get_report env = Inl e) \<Longrightarrow>
     snd (load_report env) = None \<and> section_events (fst (load_report env)) = [] \<and>
     errors_shown (fst (load_report env)) = [''Failed to parse the `.twb` content.'']"
  by (auto simp: load_report_def split: option.splits)

lemma load_report_quiet: "section_events (fst (load_report env)) = []"
  by (simp add: load_report_def split: option.splits sum.splits)

lemma section_events_checkboxes:
  "section_events (map (\<lambda>s. SidebarCheckbox (f s)) xs) = []"
  by (induction xs) auto

lemma page_crashed:
  assumes "uploaded_file ui = Some b" and "save env = Saved"
    and "load_report env = (ev2, Some r)" and "merge_step r = Inl e"
  shows "section_events (shown (run_page env ui st files)) = []"
    and "uncaught (run_page env ui st files) = Some e"
proof -
  have "section_events ev2 = []" using load_report_quiet [of env] assms(3) by simp
  then show "section_events (shown (run_page env ui st files)) = []"
    using assms by (simp add: run_page_def Let_def page_head_quiet section_events_checkboxes)
  show "uncaught (run_page env ui st files) = Some e"
    using assms by (simp add: run_page_def Let_def)
qed

lemma page_rendered:
  assumes "uploaded_file ui = Some b" and "save env = Saved"
    and "load_report env = (ev2, Some r)" and "merge_step r = Inr r'"
  shows "\<exists>pre post. shown (run_page env ui st files) =
           pre @ fst (display_sections env ui r'
                        (filter (\<lambda>section. checkbox ui (''Include '' @ section)) report_sections)
                        report_sections st) @ post"
    and "uncaught (run_page env ui st files) = None"
proof -
  obtain ev4 st2 where d: "display_sections env ui r'
        (filter (\<lambda>section. checkbox ui (''Include '' @ section)) report_sections)
        report_sections st = (ev4, st2)"
    by (cases "display_sections env ui r'
        (filter (\<lambda>section. checkbox ui (''Include '' @ section)) report_sections)
        report_sections st")
  have "shown (run_page env ui st files) =
          (page_head @ [SidebarSuccess ''File uploaded successfully.'',
                        Write ''**File uploaded and saved successfully.**''] @ ev2 @
           SidebarHeader ''Report Generation'' #
             map (\<lambda>section. SidebarCheckbox (''Include '' @ section)) report_sections @
             [Write ''### Selected Report Sections'',
              Write (join '', '' (filter (\<lambda>section. checkbox ui (''Include '' @ section))
                                  report_sections)),
              Markdown ''---'']) @
          ev4 @
          (export_report env ui
             (filter (\<lambda>section. checkbox ui (''Include '' @ section)) report_sections) r' @
           download_original ui (extraction env (save_upload Saved files)))"
    using assms d by (simp add: run_page_def Let_def)
  then show "\<exists>pre post. shown (run_page env ui st files) =
           pre @ fst (display_sections env ui r'
                        (filter (\<lambda>section. checkbox ui (''Include '' @ section)) report_sections)
                        report_sections st) @ post"
    unfolding d fst_conv by - (rule exI, rule exI, assumption)
  show "uncaught (run_page env ui st files) = None"
    using assms d by (simp add: run_page_def Let_def)
qed

lemma display_sections_has:
  assumes "s \<in> set secs" and "s \<in> set sel"
    and "\<And>st. fst (display_section env ui r s st) = E"
  shows "\<exists>pre post. fst (display_sections env ui r sel secs st) = pre @ E @ post"
  using assms(1)
proof (induction secs arbitrary: st)
  case Nil
  then show ?case by simp
next
  case (Cons x secs)
  obtain ev st1 where x: "display_section env ui r x st = (ev, st1)"
    by (cases "display_section env ui r x st")
  obtain evs st2 where xs: "display_sections env ui r sel secs st1 = (evs, st2)"
    by (cases "display_sections env ui r sel secs st1")
  show ?case
  proof (cases "s = x")
    case True
    then have "ev = E" using assms(3) [of st] x by simp
    then have "fst (display_sections env ui r sel (x # secs) st) = [] @ E @ evs"
      using True assms(2) x xs by simp
    then show ?thesis by - (rule exI, rule exI, assumption)
  next
    case False
    then have "s \<in> set secs" using Cons.prems by simp
    show ?thesis
    proof (cases "x \<in> set sel")
      case True
      from Cons.IH [OF \<open>s \<in> set secs\<close>, of st1] obtain pre post where
        "fst (display_sections env ui r sel secs st1) = pre @ E @ post" by (elim exE)
      then have "evs = pre @ E @ post" using xs by simp
      then have "fst (display_sections env ui r sel (x # secs) st) = (ev @ pre) @ E @ post"
        using True x xs by simp
      then show ?thesis by - (rule exI, rule exI, assumption)
    next
      case False
      then show ?thesis using Cons.IH [OF \<open>s \<in> set secs\<close>, of st] by simp
    qed
  qed
qed

lemma merge_fields_of_empty:
  "df_empty df \<Longrightarrow> merge_fields ds (PFrame df) = Inr None"
  by (simp add: merge_fields_def frame_of_def)

lemma merged_entry_of_empty:
  assumes "table_is_empty r ''metadata'' key"
  shows "merged_entry r key = None"
proof (cases "r ''metadata''")
  case None
  then show ?thesis by (simp add: merged_entry_def split: option.splits)
next
  case (Some md)
  with assms obtain df where "dict_get md key (PFrame DataFrame) = PFrame df" "df_empty df"
    by (auto simp: table_is_empty_def namespace_of_def split: pyval.splits)
  then show ?thesis
    using Some by (simp add: merged_entry_def merge_fields_of_empty split: option.splits sum.splits)
qed

lemma empty_table_kept:
  assumes "merge_step r = Inr r'" and "table_is_empty r ns key"
  shows "dict_get (namespace_of r' ns) key d = dict_get (namespace_of r ns) key d"
proof (cases "ns = ''metadata''")
  case False
  then show ?thesis using merge_step_frame [OF assms(1)] by (simp add: namespace_of_def)
next
  case True
  from merge_step_frame [OF assms(1)] obtain md md' where
    m: "r ''metadata'' = Some md" "r' ''metadata'' = Some md'"
       "\<forall>k. md' k = md k \<or> (md' k = merged_entry r k \<and> md' k \<noteq> None)"
    by (elim conjE exE)
  have "merged_entry r key = None" using assms(2) True by (simp add: merged_entry_of_empty)
  then have "md' key = md key" using m(3) [rule_format, of key] by auto
  then show ?thesis using True m by (simp add: namespace_of_def dict_get_def)
qed

lemma merge_step_namespaces:
  assumes "merge_step r = Inr r'"
  shows "r' ''data'' \<noteq> None \<and> r' ''metadata'' \<noteq> None"
proof -
  from assms have "r ''data'' \<noteq> None" by (auto simp: merge_step_def split: option.splits)
  moreover have "r' ''data'' = r ''data''" using merge_step_frame [OF assms] by simp
  moreover have "r' ''metadata'' \<noteq> None" using merge_step_frame [OF assms] by auto
  ultimately show ?thesis by simp
qed

lemma table_section_empty:
  assumes "table_is_empty r ns key" and "r ns = Some d"
  shows "table_section clicked d key skey label msg st = ([Write msg], st, None)"
  using assms
  by (auto simp: table_is_empty_def namespace_of_def table_section_def frame_of_def
        split: pyval.splits)

lemma display_section_empty:
  assumes "(s, ns, key, msg) \<in> set table_sections" and "table_is_empty r ns key"
    and "r ''data'' \<noteq> None" and "r ''metadata'' \<noteq> None"
  shows "display_section env ui r s st = ([Header s, Write msg], st)"
proof -
  obtain data md where d: "r ''data'' = Some data" and m: "r ''metadata'' = Some md"
    using assms(3,4) by auto
  from assms(1) have
    "(s = ''Calculated Fields'' \<and> ns = ''metadata'' \<and> key = ''calculated_fields''
        \<and> msg = ''No calculated fields found.'') \<or>
     (s = ''Original Fields'' \<and> ns = ''metadata'' \<and> key = ''original_fields''
        \<and> msg = ''No original fields found.'') \<or>
     (s = ''Worksheets'' \<and> ns = ''metadata'' \<and> key = ''worksheets''
        \<and> msg = ''No worksheets found.'') \<or>
     (s = ''Data Sources'' \<and> ns = ''data'' \<and> key = ''data_sources''
        \<and> msg = ''No data sources found.'')"
    by (simp add: table_sections_def)
  then show ?thesis
  proof (elim disjE conjE)
    assume "s = ''Calculated Fields''" "ns = ''metadata''" "key = ''calculated_fields''"
      "msg = ''No calculated fields found.''"
    then show ?thesis
      using assms(2) m by (simp add: display_section_def section_body_def table_section_empty)
  next
    assume "s = ''Original Fields''" "ns = ''metadata''" "key = ''original_fields''"
      "msg = ''No original fields found.''"
    then show ?thesis
      using assms(2) m by (simp add: display_section_def section_body_def table_section_empty)
  next
    assume "s = ''Worksheets''" "ns = ''metadata''" "key = ''worksheets''"
      "msg = ''No worksheets found.''"
    then show ?thesis
      using assms(2) m by (simp add: display_section_def section_body_def table_section_empty)
  next
    assume "s = ''Data Sources''" "ns = ''data''" "key = ''data_sources''"
      "msg = ''No data sources found.''"
    then show ?thesis
      using assms(2) d by (simp add: display_section_def section_body_def table_section_empty)
  qed
qed

lemma dag_section_insufficient:
  assumes "r ''data'' = Some data" and "r ''metadata'' = Some md"
    and "dict_get md ''calculated_fields'' (PFrame DataFrame) = PFrame c"
    and "df_empty c \<or> (\<exists>orig. dict_get md ''original_fields'' (PFrame DataFrame) = PFrame orig
                          \<and> df_empty orig)"
  shows "dag_section env ui r st =
          ([Write ''Insufficient data to generate Dependency DAG.''], st, None)"
proof (cases "df_empty c")
  case True
  then show ?thesis using assms(1-3) by (simp add: dag_section_def frame_of_def Let_def)
next
  case False
  with assms(4) obtain orig where
    "dict_get md ''original_fields'' (PFrame DataFrame) = PFrame orig" "df_empty orig" by blast
  then show ?thesis using False assms(1-3) by (simp add: dag_section_def frame_of_def Let_def)
qed

lemma display_dag_insufficient:
  assumes "table_is_empty r ''metadata'' ''calculated_fields'' \<or>
           is_table r ''metadata'' ''calculated_fields'' \<and>
           table_is_empty r ''metadata'' ''original_fields''"
    and "r ''data'' \<noteq> None" and "r ''metadata'' \<noteq> None"
  shows "display_section env ui r ''Dependency DAG'' st =
           ([Header ''Dependency DAG'', Write ''Insufficient data to generate Dependency DAG.''], st)"
proof -
  obtain data md where d: "r ''data'' = Some data" and m: "r ''metadata'' = Some md"
    using assms(2,3) by auto
  from assms(1) m obtain c where c: "dict_get md ''calculated_fields'' (PFrame DataFrame) = PFrame c"
    by (cases "dict_get md ''calculated_fields'' (PFrame DataFrame)")
       (simp_all add: table_is_empty_def is_table_def namespace_of_def)
  have "df_empty c \<or> (\<exists>orig. dict_get md ''original_fields'' (PFrame DataFrame) = PFrame orig
                          \<and> df_empty orig)"
    using assms(1) m c
    by (cases "dict_get md ''original_fields'' (PFrame DataFrame)")
       (auto simp: table_is_empty_def namespace_of_def)
  from dag_section_insufficient [OF d m c this] show ?thesis
    by (simp add: display_section_def section_body_def)
qed

lemma merged_entry_frame: "merged_entry r k = Some v \<Longrightarrow> \<exists>m. v = PFrame m"
  by (auto simp: merged_entry_def split: option.splits sum.splits)

lemma is_table_kept:
  assumes "merge_step r = Inr r'" and "is_table r ''metadata'' key"
  shows "is_table r' ''metadata'' key"
proof -
  from merge_step_frame [OF assms(1)] obtain md md' where
    m: "r ''metadata'' = Some md" "r' ''metadata'' = Some md'"
       "\<forall>k. md' k = md k \<or> (md' k = merged_entry r k \<and> md' k \<noteq> None)"
    by (elim conjE exE)
  from m(3) [rule_format, of key] show ?thesis
  proof
    assume "md' key = md key"
    then show ?thesis using assms(2) m by (simp add: is_table_def namespace_of_def dict_get_def)
  next
    assume a: "md' key = merged_entry r key \<and> md' key \<noteq> None"
    then have "md' key \<noteq> None" by (rule conjunct2)
    then obtain v where v: "md' key = Some v" by (cases "md' key") simp_all
    then have "merged_entry r key = Some v" using a by simp
    then obtain mm where "v = PFrame mm" using merged_entry_frame by blast
    then show ?thesis using v m by (simp add: is_table_def namespace_of_def dict_get_def)
  qed
qed

lemma rendered_after_parse:
  assumes up: "uploaded_file ui = Some b" and sv: "save env = Saved"
    and ld: "snd (load_report env) = Some r"
    and un: "uncaught (run_page env ui st files) = None"
    and sel: "checkbox ui (''Include '' @ s)" and sec: "s \<in> set report_sections"
    and ev: "\<And>r' st'. merge_step r = Inr r' \<Longrightarrow> display_section env ui r' s st' = (E, st')"
  shows "\<exists>pre post. shown (run_page env ui st files) = pre @ E @ post"
proof -
  obtain ev2 where l: "load_report env = (ev2, Some r)"
    using ld by (cases "load_report env") simp
  obtain r' where ms: "merge_step r = Inr r'"
    using un page_crashed(2) [OF up sv l] by (cases "merge_step r") auto
  let ?sel = "filter (\<lambda>section. checkbox ui (''Include '' @ section)) report_sections"
  from page_rendered(1) [OF up sv l ms, of st files] obtain pre post where
    sh: "shown (run_page env ui st files) =
           pre @ fst (display_sections env ui r' ?sel report_sections st) @ post"
    by (elim exE)
  have "s \<in> set ?sel" using sel sec by simp
  have "fst (display_section env ui r' s st') = E" for st'
    using ev [OF ms, of st'] by simp
  from display_sections_has [OF sec \<open>s \<in> set ?sel\<close>, of env ui r' E st, OF this]
  obtain p q where
    "fst (display_sections env ui r' ?sel report_sections st) = p @ E @ q"
    by (elim exE)
  with sh have "shown (run_page env ui st files) = (pre @ p) @ E @ (q @ post)" by simp
  then show ?thesis by - (rule exI, rule exI, assumption)
qed

text \<open>
  C2, as amended. For an uploaded and saved workbook, in a run that got past the log
  set-up: when decompression raises, when no document text was extracted, or when
  parsing (or fetching the report) raises, \<^verbatim>\<open>main\<close> shows exactly one error message,
  the one of that failure, renders nothing of any report section and ends without a
  report. After a successful parse in which the caption merge raises no exception, a
  selected section whose table is empty (or absent) shows its header followed at once by
  its empty-state message; so does the dependency section when a field table it needs is
  empty. When the caption merge raises, which nothing catches, the run ends before any
  section is rendered.
\<close>

theorem abort_or_empty_state:
  assumes lg: "snd (start_logging env files) = None"
    and up: "uploaded_file ui = Some b" and sv: "save env = Saved"
  shows "(decompress_twbx env \<noteq> None \<longrightarrow>
            section_events (shown (main env ui st files)) = [] \<and>
            errors_shown (shown (main env ui st files))
              = [''Failed to decompress the `.twbx` file.''] \<and>
            report_after (main env ui st files) = None) \<and>
         (decompress_twbx env = None \<and> (twb_content env = None \<or> twb_content env = Some []) \<longrightarrow>
            section_events (shown (main env ui st files)) = [] \<and>
            errors_shown (shown (main env ui st files))
              = [''Failed to extract `.twb` content from the uploaded `.twbx` file.''] \<and>
            report_after (main env ui st files) = None) \<and>
         (decompress_twbx env = None \<and> twb_content env \<noteq> None \<and> twb_content env \<noteq> Some [] \<and>
          (parse_twb env \<noteq> None \<or> (\<exists>e. get_report env = Inl e)) \<longrightarrow>
            section_events (shown (main env ui st files)) = [] \<and>
            errors_shown (shown (main env ui st files))
              = [''Failed to parse the `.twb` content.''] \<and>
            report_after (main env ui st files) = None) \<and>
         (\<forall>r. decompress_twbx env = None \<and> twb_content env \<noteq> None \<and> twb_content env \<noteq> Some [] \<and>
              parse_twb env = None \<and> get_report env = Inr r \<longrightarrow>
            (uncaught (main env ui st files) \<noteq> None \<longrightarrow>
               section_events (shown (main env ui st files)) = []) \<and>
            (uncaught (main env ui st files) = None \<longrightarrow>
               (\<forall>s ns key msg.
                   (s, ns, key, msg) \<in> set table_sections \<and> checkbox ui (''Include '' @ s) \<and>
                   table_is_empty r ns key \<longrightarrow>
                   (\<exists>pre post. shown (main env ui st files)
                       = pre @ [Header s, Write msg] @ post)) \<and>
               (checkbox ui ''Include Dependency DAG'' \<and>
                (table_is_empty r ''metadata'' ''calculated_fields'' \<or>
                 is_table r ''metadata'' ''calculated_fields'' \<and>
                 table_is_empty r ''metadata'' ''original_fields'') \<longrightarrow>
                   (\<exists>pre post. shown (main env ui st files)
                       = pre @ [Header ''Dependency DAG'',
                                Write ''Insufficient data to generate Dependency DAG.''] @ post))))"
proof -
  obtain files1 where sl: "start_logging env files = (files1, None)"
    using lg by (cases "start_logging env files") simp
  note m = main_logged [OF sl, of ui st]
  show ?thesis
    unfolding m
  proof (intro conjI impI allI)
    assume a: "decompress_twbx env \<noteq> None"
    then have l: "load_report env = ([Error ''Failed to decompress the `.twbx` file.''], None)"
      by (rule load_report_decompress)
    then have n: "snd (load_report env) = None" by simp
    show "section_events (shown (run_page env ui (init_session_state st) files1)) = []"
      by (simp add: page_aborted(1) [OF up sv n] page_head_quiet l)
    show "errors_shown (shown (run_page env ui (init_session_state st) files1)) = [''Failed to decompress the `.twbx` file.'']"
      by (simp add: page_aborted(1) [OF up sv n] page_head_quiet l)
    show "report_after (run_page env ui (init_session_state st) files1) = None"
      by (rule page_aborted(2) [OF up sv n])
  next
    assume a: "decompress_twbx env = None \<and> (twb_content env = None \<or> twb_content env = Some [])"
    then have l: "load_report env =
         ([Write ''**Decompressed the `.twbx` file successfully.**'',
           Error ''Failed to extract `.twb` content from the uploaded `.twbx` file.''], None)"
      by (intro load_report_no_content) simp_all
    then have n: "snd (load_report env) = None" by simp
    show "section_events (shown (run_page env ui (init_session_state st) files1)) = []"
      by (simp add: page_aborted(1) [OF up sv n] page_head_quiet l)
    show "errors_shown (shown (run_page env ui (init_session_state st) files1))
            = [''Failed to extract `.twb` content from the uploaded `.twbx` file.'']"
      by (simp add: page_aborted(1) [OF up sv n] page_head_quiet l)
    show "report_after (run_page env ui (init_session_state st) files1) = None"
      by (rule page_aborted(2) [OF up sv n])
  next
    assume a: "decompress_twbx env = None \<and> twb_content env \<noteq> None \<and> twb_content env \<noteq> Some [] \<and>
            (parse_twb env \<noteq> None \<or> (\<exists>e. get_report env = Inl e))"
    then have l: "snd (load_report env) = None \<and> section_events (fst (load_report env)) = [] \<and>
       errors_shown (fst (load_report env)) = [''Failed to parse the `.twb` content.'']"
      by (intro load_report_parse) simp_all
    then have n: "snd (load_report env) = None" by simp
    show "section_events (shown (run_page env ui (init_session_state st) files1)) = []"
      using l by (simp add: page_aborted(1) [OF up sv n] page_head_quiet)
    show "errors_shown (shown (run_page env ui (init_session_state st) files1)) = [''Failed to parse the `.twb` content.'']"
      using l by (simp add: page_aborted(1) [OF up sv n] page_head_quiet)
    show "report_after (run_page env ui (init_session_state st) files1) = None"
      by (rule page_aborted(2) [OF up sv n])
  next
    fix r
    assume a: "decompress_twbx env = None \<and> twb_content env \<noteq> None \<and> twb_content env \<noteq> Some [] \<and>
                parse_twb env = None \<and> get_report env = Inr r"
    then have ld: "snd (load_report env) = Some r" by (simp add: load_report_Some)
    then obtain ev2 where l: "load_report env = (ev2, Some r)"
      by (cases "load_report env") simp
    {
      assume "uncaught (run_page env ui (init_session_state st) files1) \<noteq> None"
      then obtain e where "merge_step r = Inl e"
        using page_rendered(2) [OF up sv l] by (cases "merge_step r") auto
      then show "section_events (shown (run_page env ui (init_session_state st) files1)) = []"
        by (rule page_crashed(1) [OF up sv l])
    }
    assume un: "uncaught (run_page env ui (init_session_state st) files1) = None"
    {
      fix s ns key msg
      assume h: "(s, ns, key, msg) \<in> set table_sections \<and> checkbox ui (''Include '' @ s) \<and>
                     table_is_empty r ns key"
      then have sec: "s \<in> set report_sections"
        by (auto simp: table_sections_def report_sections_def)
      have "display_section env ui r' s st' = ([Header s, Write msg], st')"
        if ms: "merge_step r = Inr r'" for r' st'
      proof -
        have "table_is_empty r' ns key"
          using h empty_table_kept [OF ms, of ns key] by (simp add: table_is_empty_def)
        then show ?thesis
          using h merge_step_namespaces [OF ms] by (intro display_section_empty) simp_all
      qed
      with h show "\<exists>pre post. shown (run_page env ui (init_session_state st) files1) = pre @ [Header s, Write msg] @ post"
        by (intro rendered_after_parse [OF up sv ld un _ sec]) simp_all
    }
    {
      assume h: "checkbox ui ''Include Dependency DAG'' \<and>
                  (table_is_empty r ''metadata'' ''calculated_fields'' \<or>
                   is_table r ''metadata'' ''calculated_fields'' \<and>
                   table_is_empty r ''metadata'' ''original_fields'')"
      have sec: "''Dependency DAG'' \<in> set report_sections" by (simp add: report_sections_def)
      have "display_section env ui r' ''Dependency DAG'' st' =
             ([Header ''Dependency DAG'', Write ''Insufficient data to generate Dependency DAG.''], st')"
        if ms: "merge_step r = Inr r'" for r' st'
      proof -
        have c: "table_is_empty r ''metadata'' ''calculated_fields'' \<Longrightarrow>
                 table_is_empty r' ''metadata'' ''calculated_fields''"
          using empty_table_kept [OF ms, of "''metadata''" "''calculated_fields''"]
          by (simp add: table_is_empty_def)
        have o: "table_is_empty r ''metadata'' ''original_fields'' \<Longrightarrow>
                 table_is_empty r' ''metadata'' ''original_fields''"
          using empty_table_kept [OF ms, of "''metadata''" "''original_fields''"]
          by (simp add: table_is_empty_def)
        have t: "is_table r ''metadata'' ''calculated_fields'' \<Longrightarrow>
                 is_table r' ''metadata'' ''calculated_fields''"
          by (rule is_table_kept [OF ms])
        from h c o t have "table_is_empty r' ''metadata'' ''calculated_fields'' \<or>
                   is_table r' ''metadata'' ''calculated_fields'' \<and>
                   table_is_empty r' ''metadata'' ''original_fields''" by blast
        then show ?thesis
          using merge_step_namespaces [OF ms] by (intro display_dag_insufficient) simp_all
      qed
      with h show "\<exists>pre post. shown (run_page env ui (init_session_state st) files1)
                         = pre @ [Header ''Dependency DAG'',
                                  Write ''Insufficient data to generate Dependency DAG.''] @ post"
        by (intro rendered_after_parse [OF up sv ld un _ sec]) simp_all
    }
  qed
qed

lemma merge_step_no_sheets: "\<exists>r'. merge_step no_sheets_report = Inr r'"
  by (simp add: merge_step_def no_sheets_report_def dict_get_def frame_of_def sources_not_empty
        merge_fields_sample merge_fields_sample_original)

lemma broken_logged:
  "main broken_env ui st files =
     run_page broken_env ui (init_session_state st) (insert ''logs/app.log'' (insert ''logs'' files))"
  by (rule main_opened) (simp_all add: broken_env_def sample_env_def)

lemma no_sheets_logged:
  "main no_sheets_env ui st files =
     run_page no_sheets_env ui (init_session_state st)
       (insert ''logs/app.log'' (insert ''logs'' files))"
  by (rule main_opened) (simp_all add: no_sheets_env_def sample_env_def)

lemma no_caption_logged:
  "main no_caption_env ui st files =
     run_page no_caption_env ui (init_session_state st)
       (insert ''logs/app.log'' (insert ''logs'' files))"
  by (rule main_opened) (simp_all add: no_caption_env_def sample_env_def)

lemma no_sheets_run_uncaught: "uncaught (main no_sheets_env sample_ui Map.empty {}) = None"
proof -
  obtain r' where ms: "merge_step no_sheets_report = Inr r'"
    using merge_step_no_sheets by (elim exE)
  have l: "load_report no_sheets_env =
             ([Write ''**Decompressed the `.twbx` file successfully.**'',
               Write ''**Parsed the `.twb` content successfully.**''], Some no_sheets_report)"
    by (simp add: load_report_def no_sheets_env_def sample_env_def)
  have up: "uploaded_file sample_ui = Some ''PK''" by (simp add: sample_ui_def)
  have sv: "save no_sheets_env = Saved" by (simp add: no_sheets_env_def sample_env_def)
  show ?thesis unfolding no_sheets_logged by (rule page_rendered(2) [OF up sv l ms])
qed

lemma sample_run_uncaught: "uncaught (main sample_env sample_ui Map.empty {}) = None"
proof -
  have l: "load_report sample_env =
             ([Write ''**Decompressed the `.twbx` file successfully.**'',
               Write ''**Parsed the `.twb` content successfully.**''], Some sample_report)"
    by (simp add: load_report_def sample_env_def)
  have up: "uploaded_file sample_ui = Some ''PK''" by (simp add: sample_ui_def)
  have sv: "save sample_env = Saved" by (simp add: sample_env_def)
  show ?thesis unfolding sample_logged by (rule page_rendered(2) [OF up sv l merge_step_sample])
qed

lemma broken_run_errors:
  "errors_shown (shown (main broken_env sample_ui Map.empty {}))
     = [''Failed to decompress the `.twbx` file.'']"
proof -
  have up: "uploaded_file sample_ui = Some ''PK''" by (simp add: sample_ui_def)
  have sv: "save broken_env = Saved" by (simp add: broken_env_def sample_env_def)
  have l: "load_report broken_env = ([Error ''Failed to decompress the `.twbx` file.''], None)"
    by (rule load_report_decompress) (simp add: broken_env_def)
  then have n: "snd (load_report broken_env) = None" by simp
  show ?thesis by (simp add: broken_logged page_aborted(1) [OF up sv n] page_head_quiet l)
qed

lemma opened_in_samples:
  "snd (start_logging broken_env files) = None"
  "snd (start_logging no_sheets_env files) = None"
  "snd (start_logging no_caption_env files) = None"
  by (simp_all add: start_logging_opened broken_env_def no_sheets_env_def no_caption_env_def
        sample_env_def)

theorem abort_or_empty_state_witness:
  "snd (start_logging broken_env {}) = None \<and>
   uploaded_file sample_ui = Some ''PK'' \<and> save broken_env = Saved \<and>
   decompress_twbx broken_env \<noteq> None \<and>
   section_events (shown (main broken_env sample_ui Map.empty {})) = [] \<and>
   errors_shown (shown (main broken_env sample_ui Map.empty {}))
     = [''Failed to decompress the `.twbx` file.''] \<and>
   report_after (main broken_env sample_ui Map.empty {}) = None \<and>
   snd (start_logging no_sheets_env {}) = None \<and>
   save no_sheets_env = Saved \<and>
   (decompress_twbx no_sheets_env = None \<and> twb_content no_sheets_env \<noteq> None \<and>
    twb_content no_sheets_env \<noteq> Some [] \<and> parse_twb no_sheets_env = None \<and>
    get_report no_sheets_env = Inr no_sheets_report) \<and>
   uncaught (main no_sheets_env sample_ui Map.empty {}) = None \<and>
   ((''Worksheets'', ''metadata'', ''worksheets'', ''No worksheets found.'') \<in> set table_sections \<and>
    checkbox sample_ui (''Include '' @ ''Worksheets'') \<and>
    table_is_empty no_sheets_report ''metadata'' ''worksheets'') \<and>
   (\<exists>pre post. shown (main no_sheets_env sample_ui Map.empty {})
       = pre @ [Header ''Worksheets'', Write ''No worksheets found.''] @ post)"
proof -
  have lg1: "snd (start_logging broken_env {}) = None" by (rule opened_in_samples)
  have lg2: "snd (start_logging no_sheets_env {}) = None" by (rule opened_in_samples)
  have up: "uploaded_file sample_ui = Some ''PK''" by (simp add: sample_ui_def)
  have sv1: "save broken_env = Saved" by (simp add: broken_env_def sample_env_def)
  have sv2: "save no_sheets_env = Saved" by (simp add: no_sheets_env_def sample_env_def)
  have d: "decompress_twbx broken_env \<noteq> None" by (simp add: broken_env_def)
  have p: "decompress_twbx no_sheets_env = None \<and> twb_content no_sheets_env \<noteq> None \<and>
    twb_content no_sheets_env \<noteq> Some [] \<and> parse_twb no_sheets_env = None \<and>
    get_report no_sheets_env = Inr no_sheets_report"
    by (simp add: no_sheets_env_def sample_env_def)
  have e: "(''Worksheets'', ''metadata'', ''worksheets'', ''No worksheets found.'') \<in> set table_sections \<and>
    checkbox sample_ui (''Include '' @ ''Worksheets'') \<and>
    table_is_empty no_sheets_report ''metadata'' ''worksheets''"
    by (simp add: table_sections_def sample_ui_def table_is_empty_def namespace_of_def
          no_sheets_report_def dict_get_def df_empty_def)
  note un = no_sheets_run_uncaught
  have a: "section_events (shown (main broken_env sample_ui Map.empty {})) = [] \<and>
           errors_shown (shown (main broken_env sample_ui Map.empty {}))
             = [''Failed to decompress the `.twbx` file.''] \<and>
           report_after (main broken_env sample_ui Map.empty {}) = None"
    using abort_or_empty_state [OF lg1 up sv1, where st = Map.empty, THEN conjunct1] d by (rule mp)
  have "\<exists>pre post. shown (main no_sheets_env sample_ui Map.empty {})
       = pre @ [Header ''Worksheets'', Write ''No worksheets found.''] @ post"
    using abort_or_empty_state [OF lg2 up sv2, where st = Map.empty, THEN conjunct2,
            THEN conjunct2, THEN conjunct2, THEN spec, THEN mp, OF p, THEN conjunct2, THEN mp,
            OF un, THEN conjunct1, THEN spec, THEN spec, THEN spec, THEN spec, THEN mp, OF e] .
  with lg1 lg2 up sv1 sv2 d p e un a show ?thesis by (intro conjI) (elim conjE, assumption)+
qed

lemma merge_step_no_caption: "merge_step no_caption_report = Inl (KeyError ''Caption'')"
  by (simp add: merge_step_def no_caption_report_def dict_get_def frame_of_def df_empty_def
        merge_fields_def getitem_cols_def sample_calculated_def no_caption_sources_def)

lemma page_crashed_shown:
  assumes "uploaded_file ui = Some b" and "save env = Saved"
    and "load_report env = (ev2, Some r)" and "merge_step r = Inl e"
  shows "shown (run_page env ui st files) =
           page_head @ [SidebarSuccess ''File uploaded successfully.'',
                        Write ''**File uploaded and saved successfully.**''] @ ev2 @
           SidebarHeader ''Report Generation'' #
             map (\<lambda>section. SidebarCheckbox (''Include '' @ section)) report_sections @
             [Write ''### Selected Report Sections'',
              Write (join '', '' (filter (\<lambda>section. checkbox ui (''Include '' @ section))
                                  report_sections)),
              Markdown ''---'']"
  using assms by (simp add: run_page_def Let_def)

text \<open>
  C2 fails as stated: the workbook parses, its worksheet table is empty and the
  Worksheets section is ticked, but the data-source table has no \<^verbatim>\<open>Caption\<close> column, so
  line 177 raises \<^verbatim>\<open>KeyError\<close> outside every \<^verbatim>\<open>try\<close>; the run ends there, and neither
  the section nor its empty-state message is shown.
\<close>

theorem empty_state_not_shown_counterexample:
  "snd (start_logging no_caption_env {}) = None \<and>
   uploaded_file sample_ui = Some ''PK'' \<and> save no_caption_env = Saved \<and>
   (decompress_twbx no_caption_env = None \<and> twb_content no_caption_env \<noteq> None \<and>
    twb_content no_caption_env \<noteq> Some [] \<and> parse_twb no_caption_env = None \<and>
    get_report no_caption_env = Inr no_caption_report) \<and>
   checkbox sample_ui (''Include '' @ ''Worksheets'') \<and>
   table_is_empty no_caption_report ''metadata'' ''worksheets'' \<and>
   uncaught (main no_caption_env sample_ui Map.empty {}) = Some (KeyError ''Caption'') \<and>
   section_events (shown (main no_caption_env sample_ui Map.empty {})) = [] \<and>
   Write ''No worksheets found.'' \<notin> set (shown (main no_caption_env sample_ui Map.empty {}))"
proof -
  have up: "uploaded_file sample_ui = Some ''PK''" by (simp add: sample_ui_def)
  have sv: "save no_caption_env = Saved" by (simp add: no_caption_env_def sample_env_def)
  have l: "load_report no_caption_env =
             ([Write ''**Decompressed the `.twbx` file successfully.**'',
               Write ''**Parsed the `.twb` content successfully.**''], Some no_caption_report)"
    by (simp add: load_report_def no_caption_env_def sample_env_def)
  have p: "decompress_twbx no_caption_env = None \<and> twb_content no_caption_env \<noteq> None \<and>
    twb_content no_caption_env \<noteq> Some [] \<and> parse_twb no_caption_env = None \<and>
    get_report no_caption_env = Inr no_caption_report"
    by (simp add: no_caption_env_def sample_env_def)
  have e: "checkbox sample_ui (''Include '' @ ''Worksheets'')"
    "table_is_empty no_caption_report ''metadata'' ''worksheets''"
    by (simp_all add: sample_ui_def table_is_empty_def namespace_of_def no_caption_report_def
          dict_get_def df_empty_def)
  have u: "uncaught (main no_caption_env sample_ui Map.empty {}) = Some (KeyError ''Caption'')"
    unfolding no_caption_logged by (rule page_crashed(2) [OF up sv l merge_step_no_caption])
  have q: "section_events (shown (main no_caption_env sample_ui Map.empty {})) = []"
    unfolding no_caption_logged by (rule page_crashed(1) [OF up sv l merge_step_no_caption])
  have w: "Write ''No worksheets found.'' \<notin> set (shown (main no_caption_env sample_ui Map.empty {}))"
    unfolding no_caption_logged page_crashed_shown [OF up sv l merge_step_no_caption]
    by (auto simp: page_head_def report_sections_def sample_ui_def)
  from up sv p e u q w opened_in_samples(3) [of "{}"] show ?thesis by (intro conjI) (elim conjE, assumption)+
qed

subsection \<open>Files left on disk\<close>

lemma page_files_after:
  "files_after (run_page env ui st files) =
     (case uploaded_file ui of
        None \<Rightarrow> files
      | Some b \<Rightarrow>
          if save env \<noteq> Saved then save_upload (save env) files
          else extraction env (save_upload Saved files))"
  by (simp add: run_page_def Let_def split: option.splits sum.splits prod.splits)

text \<open>
  C6, as amended. \<^verbatim>\<open>main\<close> does not clean up the saved copy of the upload: in every
  run that got past the log set-up, once a file was uploaded and \<^verbatim>\<open>open\<close> did not fail,
  the saved copy \<^verbatim>\<open>temp_uploaded.twbx\<close> is on disk at the end of the run, on every exit
  path: after a complete run, after a failed write, after a failed decompression, a
  missing document or a failed parse, and after an exception of the caption merge. (The
  parser's extraction is taken not to delete the saved copy.)
\<close>

theorem saved_copy_remains:
  assumes "keeps (extraction env) temp_twbx_path"
    and "snd (start_logging env files) = None"
    and "uploaded_file ui \<noteq> None" and "save env \<noteq> OpenFailed"
  shows "temp_twbx_path \<in> files_after (main env ui st files)"
proof -
  obtain files1 where sl: "start_logging env files = (files1, None)"
    using assms(2) by (cases "start_logging env files") simp
  have t: "temp_twbx_path \<in> save_upload (save env) files1"
    using assms(4) by (cases "save env") (simp_all add: save_upload_def)
  show ?thesis
  proof (cases "save env = Saved")
    case True
    then have "temp_twbx_path \<in> extraction env (save_upload Saved files1)"
      using t assms(1) by (simp add: keeps_def)
    then show ?thesis
      using True assms(3) by (auto simp: main_logged [OF sl] page_files_after)
  next
    case False
    then show ?thesis
      using t assms(3) by (auto simp: main_logged [OF sl] page_files_after)
  qed
qed

text \<open>
  C6 fails as stated: with a parser that leaves nothing of its extraction behind, the
  saved copy of the upload, written during the run, is on disk after a complete run and
  after a run that failed at decompression.
\<close>

theorem saved_copy_left_counterexample:
  "extraction sample_env {''temp_uploaded.twbx''} = {''temp_uploaded.twbx''} \<and>
   ''temp_uploaded.twbx'' \<notin> ({} :: string set) \<and>
   files_after (main sample_env sample_ui Map.empty {})
     = {''logs/app.log'', ''logs'', ''temp_uploaded.twbx''} \<and>
   uncaught (main sample_env sample_ui Map.empty {}) = None \<and>
   files_after (main broken_env sample_ui Map.empty {})
     = {''logs/app.log'', ''logs'', ''temp_uploaded.twbx''} \<and>
   errors_shown (shown (main broken_env sample_ui Map.empty {}))
     = [''Failed to decompress the `.twbx` file.'']"
proof -
  have f1: "files_after (main sample_env sample_ui Map.empty {})
     = {''logs/app.log'', ''logs'', ''temp_uploaded.twbx''}"
    unfolding sample_logged page_files_after
    by (auto simp: sample_env_def sample_ui_def save_upload_def temp_twbx_path_def)
  have f2: "files_after (main broken_env sample_ui Map.empty {})
     = {''logs/app.log'', ''logs'', ''temp_uploaded.twbx''}"
    unfolding broken_logged page_files_after
    by (auto simp: broken_env_def sample_env_def sample_ui_def save_upload_def
          temp_twbx_path_def)
  have "extraction sample_env {''temp_uploaded.twbx''} = {''temp_uploaded.twbx''}"
    by (simp add: sample_env_def)
  with f1 f2 sample_run_uncaught broken_run_errors show ?thesis by simp
qed

theorem saved_copy_remains_witness:
  "keeps (extraction broken_env) temp_twbx_path \<and>
   snd (start_logging broken_env {''notes.txt''}) = None \<and>
   uploaded_file sample_ui \<noteq> None \<and> save broken_env \<noteq> OpenFailed \<and>
   decompress_twbx broken_env \<noteq> None \<and>
   temp_twbx_path \<in> files_after (main broken_env sample_ui Map.empty {''notes.txt''})"
proof -
  have k: "keeps (extraction broken_env) temp_twbx_path"
    by (simp add: keeps_def broken_env_def sample_env_def)
  have lg: "snd (start_logging broken_env {''notes.txt''}) = None" by (rule opened_in_samples)
  have u: "uploaded_file sample_ui \<noteq> None" by (simp add: sample_ui_def)
  have sv: "save broken_env \<noteq> OpenFailed" by (simp add: broken_env_def sample_env_def)
  have d: "decompress_twbx broken_env \<noteq> None" by (simp add: broken_env_def)
  from saved_copy_remains [OF k lg u sv, of Map.empty] k lg u sv d show ?thesis
    by (intro conjI)
qed

subsection \<open>When the dependency graph is built\<close>

lemma graphs_shown_append [simp]: "graphs_shown (xs @ ys) = graphs_shown xs @ graphs_shown ys"
  by (induction xs rule: graphs_shown.induct) auto

lemma worksheet_names_no_column:
  "''Worksheet Name'' \<notin> set (columns df) \<Longrightarrow>
     worksheet_names (PFrame df) = Inl (AttributeError ''list object has no attribute dropna'')"
  by (simp add: worksheet_names_def frame_of_def positions_absent)

text \<open>
  In the page: with both field tables at hand, a readable worksheet column and a graph
  builder that returns, the graph is drawn exactly when neither table is empty, and the
  message of line 274 is shown otherwise.
\<close>

lemma dag_section_gate:
  assumes "r ''metadata'' = Some md" and "r ''data'' = Some data"
    and "dict_get md ''calculated_fields'' (PFrame DataFrame) = PFrame c"
    and "dict_get md ''original_fields'' (PFrame DataFrame) = PFrame orig"
    and "worksheet_names (dict_get md ''worksheets'' (PFrame DataFrame)) = Inr ws"
    and "\<And>w. generate_dag env (PFrame c) (PFrame orig)
              (dict_get data ''data_sources'' (PFrame DataFrame)) w = Inr (G w)"
  shows "fst (dag_section env ui r st) =
           (if \<not> df_empty c \<and> \<not> df_empty orig then
              [Selectbox ''Select Worksheet for DAG:'' (''All'' # ws),
               GraphvizChart (plot_dag_graphviz
                 (G (Some (selectbox ui ''Select Worksheet for DAG:'' (''All'' # ws)))))]
            else [Write ''Insufficient data to generate Dependency DAG.''])"
  using assms by (simp add: dag_section_def frame_of_def Let_def)

text \<open>
  In the export: the graph is put into the report when the section is selected and the
  calculated-field table is not empty, whatever the original-field table holds.
\<close>

lemma embed_dag_gate:
  assumes "r ''metadata'' = Some md" and "r ''data'' = Some data"
    and "md ''calculated_fields'' = Some (PFrame c)" and "md ''original_fields'' = Some orig"
    and "data ''data_sources'' = Some ds"
    and "generate_dag env (PFrame c) orig ds None = Inr G"
    and "pipe_png env (plot_dag_graphviz G) = Inr img" and "image_to_base64 env img = Inr b64"
  shows "embed_dag env sel r html =
           (if ''Dependency DAG'' \<in> set sel \<and> \<not> df_empty c then
              Inr (str_replace ''<p>See the Dependency DAG visualization within the app.</p>''
                     (''<h3>Dependency DAG</h3><img src='' @
                        quoted (''data:image/png;base64,'' @ b64) @ ''/>'') html)
            else Inr html)"
  using assms by (simp add: embed_dag_def dict_get_def frame_of_def)

text \<open>
  C9, at the failing input: both field tables are non-empty, yet the dependency section
  draws no graph and shows the section's error message, because the default \<^verbatim>\<open>[]\<close> of
  \<^verbatim>\<open>.get('Worksheet Name', [])\<close> has no \<^verbatim>\<open>dropna\<close>.
\<close>

theorem dag_section_fails_without_worksheet_column:
  "\<not> table_is_empty no_sheet_column_report ''metadata'' ''calculated_fields'' \<and>
   \<not> table_is_empty no_sheet_column_report ''metadata'' ''original_fields'' \<and>
   display_section sample_env sample_ui no_sheet_column_report ''Dependency DAG'' Map.empty =
     ([Header ''Dependency DAG'',
       Error (''An error occurred while displaying the '' @ quoted ''Dependency DAG''
              @ '' section.'')], Map.empty) \<and>
   graphs_shown (fst (display_section sample_env sample_ui no_sheet_column_report
                        ''Dependency DAG'' Map.empty)) = []"
proof -
  have w: "worksheet_names (PFrame DataFrame)
             = Inl (AttributeError ''list object has no attribute dropna'')"
    by (rule worksheet_names_no_column) (simp add: DataFrame_def)
  have d: "dag_section sample_env sample_ui no_sheet_column_report Map.empty =
             ([], Map.empty, Some (AttributeError ''list object has no attribute dropna''))"
    by (simp add: dag_section_def no_sheet_column_report_def dict_get_def frame_of_def Let_def
          df_empty_def sample_merged_def sample_merged_original_def w)
  have s: "display_section sample_env sample_ui no_sheet_column_report ''Dependency DAG'' Map.empty =
     ([Header ''Dependency DAG'',
       Error (''An error occurred while displaying the '' @ quoted ''Dependency DAG''
              @ '' section.'')], Map.empty)"
    by (simp add: display_section_def section_body_def d)
  have "\<not> table_is_empty no_sheet_column_report ''metadata'' ''calculated_fields''"
    by (simp add: table_is_empty_def namespace_of_def no_sheet_column_report_def dict_get_def
          df_empty_def sample_merged_def)
  moreover have "\<not> table_is_empty no_sheet_column_report ''metadata'' ''original_fields''"
    by (simp add: table_is_empty_def namespace_of_def no_sheet_column_report_def dict_get_def
          df_empty_def sample_merged_original_def)
  ultimately show ?thesis by (simp add: s)
qed

subsection \<open>The report of the specified parser\<close>

lemma merge_fields_succeeds:
  assumes "distinct (columns ds)" and "''Data Source ID'' \<in> set (columns ds)"
    and "''Caption'' \<in> set (columns ds)"
    and "distinct (columns f)" and "''Caption'' \<notin> set (columns f)"
  shows "\<exists>m. merge_fields ds (PFrame f) = Inr m"
proof (cases "\<not> df_empty f \<and> ''Data Source ID'' \<in> set (columns f)")
  case False
  then show ?thesis by (auto simp: merge_fields_def frame_of_def)
next
  case True
  then have ne: "\<not> df_empty f" and k: "''Data Source ID'' \<in> set (columns f)" by simp_all
  obtain lk where lk: "positions ''Data Source ID'' (columns f) = [lk]"
    using positions_distinct [OF assms(4) k] by blast
  obtain pd where pd: "positions ''Data Source ID'' (columns ds) = [pd]"
    using positions_distinct [OF assms(1,2)] by blast
  obtain pc where pc: "positions ''Caption'' (columns ds) = [pc]"
    using positions_distinct [OF assms(1,3)] by blast
  show ?thesis using merge_fields_result [OF lk pd pc assms(5) ne] by simp
qed

lemma merge_step_succeeds:
  assumes "r ''metadata'' = Some md" and "r ''data'' = Some data"
    and "data ''data_sources'' = Some (PFrame ds)"
    and "md ''calculated_fields'' = Some (PFrame c)"
    and "md ''original_fields'' = Some (PFrame orig)"
    and "\<exists>m. merge_fields ds (PFrame c) = Inr m" and "\<exists>m. merge_fields ds (PFrame orig) = Inr m"
  shows "\<exists>r'. merge_step r = Inr r'"
proof -
  from assms(6) obtain mc where mc: "merge_fields ds (PFrame c) = Inr mc" by (elim exE)
  from assms(7) obtain mo where mo: "merge_fields ds (PFrame orig) = Inr mo" by (elim exE)
  show ?thesis
    using assms(1-5) mc mo by (simp add: merge_step_def dict_get_def frame_of_def Let_def)
qed

lemma positions_first: "l \<notin> set cols \<Longrightarrow> positions l (l # cols) = [0]"
proof -
  assume a: "l \<notin> set cols"
  have "positions l ([l] @ cols) = positions l [l] @ map (\<lambda>i. length [l] + i) (positions l cols)"
    by (rule positions_append)
  moreover have "positions l [l] = [0]" by (simp add: positions_def)
  ultimately show ?thesis using positions_absent [OF a] by simp
qed

lemma spec_report_namespaces:
  "spec_get_report lay doc ''metadata'' =
     Some [''version'' \<mapsto> PStr (or_unknown (version_attr doc)),
         ''source_platform'' \<mapsto> PStr (or_unknown (source_platform_attr doc)),
         ''source_build'' \<mapsto> PStr (or_unknown (source_build_attr doc)),
         ''calculated_fields'' \<mapsto>
           PFrame (table_of (''Data Source ID'' # calculated_more lay)
                     (map (\<lambda>f. fst f # snd f) (calculated_field_records doc))),
         ''original_fields'' \<mapsto>
           PFrame (table_of (''Data Source ID'' # original_more lay)
                     (map (\<lambda>f. fst f # snd f) (original_field_records doc))),
         ''worksheets'' \<mapsto>
           PFrame (table_of (''Worksheet Name'' # worksheet_more lay)
                     (map (\<lambda>w. fst w # snd w) (worksheet_records doc)))]"
  "spec_get_report lay doc ''data'' =
     Some [''data_sources'' \<mapsto>
           PFrame (table_of (''Data Source ID'' # ''Caption'' # data_source_more lay)
                     (map (\<lambda>d. fst d # fst (snd d) # snd (snd d)) (data_source_records doc)))]"
  by (simp_all add: spec_get_report_def)

lemma spec_report_consumable:
  assumes "layout_ok lay"
  shows "(\<exists>r'. merge_step (spec_get_report lay doc) = Inr r') \<and>
         (\<exists>ws. worksheet_names (dict_get (namespace_of (spec_get_report lay doc) ''metadata'')
                  ''worksheets'' (PFrame DataFrame)) = Inr ws)"
proof
  let ?ds = "table_of (''Data Source ID'' # ''Caption'' # data_source_more lay)
               (map (\<lambda>d. fst d # fst (snd d) # snd (snd d)) (data_source_records doc))"
  let ?c = "table_of (''Data Source ID'' # calculated_more lay)
              (map (\<lambda>f. fst f # snd f) (calculated_field_records doc))"
  let ?o = "table_of (''Data Source ID'' # original_more lay)
              (map (\<lambda>f. fst f # snd f) (original_field_records doc))"
  have d: "distinct (columns ?ds)" "''Data Source ID'' \<in> set (columns ?ds)"
    "''Caption'' \<in> set (columns ?ds)"
    using assms by (simp_all add: layout_ok_def table_of_def)
  have c: "distinct (columns ?c)" "''Caption'' \<notin> set (columns ?c)"
    using assms by (simp_all add: layout_ok_def table_of_def)
  have o: "distinct (columns ?o)" "''Caption'' \<notin> set (columns ?o)"
    using assms by (simp_all add: layout_ok_def table_of_def)
  show "\<exists>r'. merge_step (spec_get_report lay doc) = Inr r'"
    by (rule merge_step_succeeds [OF spec_report_namespaces(1) spec_report_namespaces(2) _ _ _
          merge_fields_succeeds [OF d c] merge_fields_succeeds [OF d o]]) simp_all
  have "positions ''Worksheet Name'' (''Worksheet Name'' # worksheet_more lay) = [0]"
    using assms by (intro positions_first) (simp add: layout_ok_def)
  then show "\<exists>ws. worksheet_names (dict_get (namespace_of (spec_get_report lay doc) ''metadata'')
                  ''worksheets'' (PFrame DataFrame)) = Inr ws"
    by (simp add: namespace_of_def spec_report_namespaces dict_get_def worksheet_names_def
          frame_of_def table_of_def)
qed

text \<open>
  C1. For every document that parses, the report the specified parser returns has
  exactly the namespaces \<^verbatim>\<open>metadata\<close> and \<^verbatim>\<open>data\<close>; \<^verbatim>\<open>metadata\<close> holds exactly the
  version information (\<^verbatim>\<open>version\<close>, \<^verbatim>\<open>source_platform\<close>, \<^verbatim>\<open>source_build\<close>, strings)
  and the tables \<^verbatim>\<open>calculated_fields\<close>, \<^verbatim>\<open>original_fields\<close> and \<^verbatim>\<open>worksheets\<close>;
  \<^verbatim>\<open>data\<close> holds exactly the table \<^verbatim>\<open>data_sources\<close>; the field tables have the column
  \<^verbatim>\<open>Data Source ID\<close>, the data-source table the columns \<^verbatim>\<open>Data Source ID\<close> and
  \<^verbatim>\<open>Caption\<close>, the worksheet table the column \<^verbatim>\<open>Worksheet Name\<close>. With these names
  the caption merge of \<^verbatim>\<open>main\<close> runs without an exception and the worksheet selection
  reads its names, whatever the records are (for a layout whose further labels do not
  clash).
\<close>

theorem spec_report_shape:
  "get_report (spec_parser lay (Some doc) env) = Inr (spec_get_report lay doc) \<and>
   dom (spec_get_report lay doc) = {''metadata'', ''data''} \<and>
   dom (namespace_of (spec_get_report lay doc) ''metadata'') =
     {''version'', ''source_platform'', ''source_build'', ''calculated_fields'',
      ''original_fields'', ''worksheets''} \<and>
   dom (namespace_of (spec_get_report lay doc) ''data'') = {''data_sources''} \<and>
   (\<exists>v p b. namespace_of (spec_get_report lay doc) ''metadata'' ''version'' = Some (PStr v) \<and>
      namespace_of (spec_get_report lay doc) ''metadata'' ''source_platform'' = Some (PStr p) \<and>
      namespace_of (spec_get_report lay doc) ''metadata'' ''source_build'' = Some (PStr b)) \<and>
   (\<exists>c. namespace_of (spec_get_report lay doc) ''metadata'' ''calculated_fields''
          = Some (PFrame c) \<and> ''Data Source ID'' \<in> set (columns c)) \<and>
   (\<exists>orig. namespace_of (spec_get_report lay doc) ''metadata'' ''original_fields''
          = Some (PFrame orig) \<and> ''Data Source ID'' \<in> set (columns orig)) \<and>
   (\<exists>w. namespace_of (spec_get_report lay doc) ''metadata'' ''worksheets''
          = Some (PFrame w) \<and> ''Worksheet Name'' \<in> set (columns w)) \<and>
   (\<exists>d. namespace_of (spec_get_report lay doc) ''data'' ''data_sources''
          = Some (PFrame d) \<and> ''Data Source ID'' \<in> set (columns d)
            \<and> ''Caption'' \<in> set (columns d)) \<and>
   (layout_ok lay \<longrightarrow>
      (\<exists>r'. merge_step (spec_get_report lay doc) = Inr r') \<and>
      (\<exists>ws. worksheet_names (dict_get (namespace_of (spec_get_report lay doc) ''metadata'')
                  ''worksheets'' (PFrame DataFrame)) = Inr ws))"
proof (intro conjI impI)
  show "get_report (spec_parser lay (Some doc) env) = Inr (spec_get_report lay doc)"
    by (simp add: spec_parser_def)
  show "dom (spec_get_report lay doc) = {''metadata'', ''data''}"
    by (auto simp: spec_get_report_def)
  show "dom (namespace_of (spec_get_report lay doc) ''metadata'') =
     {''version'', ''source_platform'', ''source_build'', ''calculated_fields'',
      ''original_fields'', ''worksheets''}"
    by (auto simp: namespace_of_def spec_report_namespaces split: if_splits)
  show "dom (namespace_of (spec_get_report lay doc) ''data'') = {''data_sources''}"
    by (auto simp: namespace_of_def spec_report_namespaces split: if_splits)
  show "\<exists>v p b. namespace_of (spec_get_report lay doc) ''metadata'' ''version'' = Some (PStr v) \<and>
      namespace_of (spec_get_report lay doc) ''metadata'' ''source_platform'' = Some (PStr p) \<and>
      namespace_of (spec_get_report lay doc) ''metadata'' ''source_build'' = Some (PStr b)"
    by (simp add: namespace_of_def spec_report_namespaces)
  show "\<exists>c. namespace_of (spec_get_report lay doc) ''metadata'' ''calculated_fields''
          = Some (PFrame c) \<and> ''Data Source ID'' \<in> set (columns c)"
    by (simp add: namespace_of_def spec_report_namespaces table_of_def)
  show "\<exists>orig. namespace_of (spec_get_report lay doc) ''metadata'' ''original_fields''
          = Some (PFrame orig) \<and> ''Data Source ID'' \<in> set (columns orig)"
    by (simp add: namespace_of_def spec_report_namespaces table_of_def)
  show "\<exists>w. namespace_of (spec_get_report lay doc) ''metadata'' ''worksheets''
          = Some (PFrame w) \<and> ''Worksheet Name'' \<in> set (columns w)"
    by (simp add: namespace_of_def spec_report_namespaces table_of_def)
  show "\<exists>d. namespace_of (spec_get_report lay doc) ''data'' ''data_sources''
          = Some (PFrame d) \<and> ''Data Source ID'' \<in> set (columns d)
            \<and> ''Caption'' \<in> set (columns d)"
    by (simp add: namespace_of_def spec_report_namespaces table_of_def)
next
  assume l: "layout_ok lay"
  show "\<exists>r'. merge_step (spec_get_report lay doc) = Inr r'"
    using spec_report_consumable [OF l] by (rule conjunct1)
  show "\<exists>ws. worksheet_names (dict_get (namespace_of (spec_get_report lay doc) ''metadata'')
                  ''worksheets'' (PFrame DataFrame)) = Inr ws"
    using spec_report_consumable [OF l] by (rule conjunct2)
qed

theorem spec_report_shape_witness:
  "layout_ok sample_layout \<and>
   (\<exists>r'. merge_step (spec_get_report sample_layout sample_document) = Inr r') \<and>
   (\<exists>ws. worksheet_names (dict_get (namespace_of (spec_get_report sample_layout sample_document)
               ''metadata'') ''worksheets'' (PFrame DataFrame)) = Inr ws)"
proof -
  have l: "layout_ok sample_layout" by (simp add: layout_ok_def sample_layout_def)
  note t = spec_report_shape [of sample_layout sample_document sample_env]
  from t have "layout_ok sample_layout \<longrightarrow>
      (\<exists>r'. merge_step (spec_get_report sample_layout sample_document) = Inr r') \<and>
      (\<exists>ws. worksheet_names (dict_get (namespace_of (spec_get_report sample_layout sample_document)
                  ''metadata'') ''worksheets'' (PFrame DataFrame)) = Inr ws)"
    by (elim conjE)
  with l show ?thesis by simp
qed

text \<open>
  In \<^verbatim>\<open>main\<close> itself (lines 198 to 203): a version key that is absent from
  \<^verbatim>\<open>report['metadata']\<close> is displayed as \<^verbatim>\<open>Unknown\<close>.
\<close>

lemma version_information_default:
  assumes "r ''metadata'' = Some md"
  shows "section_body env ui r ''Version Information'' st =
           ([Json [(''Version'', case md ''version'' of None \<Rightarrow> PStr ''Unknown'' | Some v \<Rightarrow> v),
                   (''Source Platform'',
                    case md ''source_platform'' of None \<Rightarrow> PStr ''Unknown'' | Some v \<Rightarrow> v),
                   (''Source Build'',
                    case md ''source_build'' of None \<Rightarrow> PStr ''Unknown'' | Some v \<Rightarrow> v)]],
            st, None)"
  using assms by (simp add: section_body_def dict_get_def)

text \<open>
  C7. For every document that parses, the specified parser does not fail, and each of
  the version, source-platform and source-build attributes that is missing appears in
  the report as the string \<^verbatim>\<open>Unknown\<close> under its key, which is present; the Version
  Information section of \<^verbatim>\<open>main\<close> then displays \<^verbatim>\<open>Unknown\<close> for it, without an error.
\<close>

theorem missing_version_is_unknown:
  "parse_twb (spec_parser lay (Some doc) env) = None \<and>
   get_report (spec_parser lay (Some doc) env) = Inr (spec_get_report lay doc) \<and>
   (version_attr doc = None \<longrightarrow>
      namespace_of (spec_get_report lay doc) ''metadata'' ''version'' = Some (PStr ''Unknown'')) \<and>
   (source_platform_attr doc = None \<longrightarrow>
      namespace_of (spec_get_report lay doc) ''metadata'' ''source_platform''
        = Some (PStr ''Unknown'')) \<and>
   (source_build_attr doc = None \<longrightarrow>
      namespace_of (spec_get_report lay doc) ''metadata'' ''source_build''
        = Some (PStr ''Unknown'')) \<and>
   section_body env ui (spec_get_report lay doc) ''Version Information'' st =
     ([Json [(''Version'', PStr (or_unknown (version_attr doc))),
             (''Source Platform'', PStr (or_unknown (source_platform_attr doc))),
             (''Source Build'', PStr (or_unknown (source_build_attr doc)))]], st, None) \<and>
   or_unknown None = ''Unknown''"
proof (intro conjI impI)
  show "parse_twb (spec_parser lay (Some doc) env) = None"
    by (simp add: spec_parser_def)
  show "get_report (spec_parser lay (Some doc) env) = Inr (spec_get_report lay doc)"
    by (simp add: spec_parser_def)
  show "namespace_of (spec_get_report lay doc) ''metadata'' ''version'' = Some (PStr ''Unknown'')"
    if "version_attr doc = None"
    using that by (simp add: namespace_of_def spec_report_namespaces or_unknown_def)
  show "namespace_of (spec_get_report lay doc) ''metadata'' ''source_platform''
          = Some (PStr ''Unknown'')" if "source_platform_attr doc = None"
    using that by (simp add: namespace_of_def spec_report_namespaces or_unknown_def)
  show "namespace_of (spec_get_report lay doc) ''metadata'' ''source_build''
          = Some (PStr ''Unknown'')" if "source_build_attr doc = None"
    using that by (simp add: namespace_of_def spec_report_namespaces or_unknown_def)
  show "section_body env ui (spec_get_report lay doc) ''Version Information'' st =
     ([Json [(''Version'', PStr (or_unknown (version_attr doc))),
             (''Source Platform'', PStr (or_unknown (source_platform_attr doc))),
             (''Source Build'', PStr (or_unknown (source_build_attr doc)))]], st, None)"
    by (simp add: section_body_def spec_report_namespaces dict_get_def)
  show "or_unknown None = ''Unknown''" by (simp add: or_unknown_def)
qed

theorem missing_version_is_unknown_witness:
  "version_attr sample_document \<noteq> None \<and>
   source_platform_attr sample_document = None \<and> source_build_attr sample_document = None \<and>
   namespace_of (spec_get_report sample_layout sample_document) ''metadata'' ''source_platform''
     = Some (PStr ''Unknown'') \<and>
   namespace_of (spec_get_report sample_layout sample_document) ''metadata'' ''source_build''
     = Some (PStr ''Unknown'') \<and>
   section_body sample_env sample_ui (spec_get_report sample_layout sample_document)
       ''Version Information'' Map.empty =
     ([Json [(''Version'', PStr ''18.1''), (''Source Platform'', PStr ''Unknown''),
             (''Source Build'', PStr ''Unknown'')]], Map.empty, None)"
proof -
  have a: "version_attr sample_document = Some ''18.1''"
    "source_platform_attr sample_document = None" "source_build_attr sample_document = None"
    by (simp_all add: sample_document_def)
  note t = missing_version_is_unknown
             [of sample_layout sample_document sample_env sample_ui Map.empty]
  from t a show ?thesis by (simp add: or_unknown_def)
qed

end
